theory Spec2Isabelle
  imports Main "HOL-Library.Multiset"
begin

section \<open>Strings, paths and the instruction tree\<close>

text \<open>
  The renderer of \<^verbatim>\<open>instructions/instruction_renderer.py\<close> resolves a named instruction
  against a directory tree rooted at \<^verbatim>\<open>INSTRUCTIONS_DIR\<close>. Each function of the source
  becomes a function from the tree and the call's arguments to an exception or a result;
  the tree is read-only during a call. Calls of the logger change no result and are left
  out; \<^verbatim>\<open>_load_instruction_composables_module\<close> is called by none of the renderers and
  is not modelled.

  Python strings are modelled as \<^typ>\<open>string\<close> (byte strings): the character classes below
  are those of the ASCII range, and code points beyond it are treated as uncased, non-digit
  and non-space.
\<close>

definition is_space :: "char \<Rightarrow> bool" where
  \<comment> \<open>\<^verbatim>\<open>str.isspace\<close> on ASCII: TAB, LF, VT, FF, CR, FS, GS, RS, US and the blank.\<close>
  "is_space c = (let n = (of_char c :: nat) in (9 \<le> n \<and> n \<le> 13) \<or> (28 \<le> n \<and> n \<le> 32))"

definition is_c_space :: "char \<Rightarrow> bool" where
  \<comment> \<open>the blanks \<^verbatim>\<open>int\<close> skips around an ASCII literal: TAB, LF, VT, FF, CR and the blank\<close>
  "is_c_space c = (let n = (of_char c :: nat) in (9 \<le> n \<and> n \<le> 13) \<or> n = 32)"

definition is_digit :: "char \<Rightarrow> bool" where
  "is_digit c = (let n = (of_char c :: nat) in 48 \<le> n \<and> n \<le> 57)"

definition digit_val :: "char \<Rightarrow> nat" where
  "digit_val c = of_char c - 48"

definition is_upper_char :: "char \<Rightarrow> bool" where
  "is_upper_char c = (let n = (of_char c :: nat) in 65 \<le> n \<and> n \<le> 90)"

definition is_lower_char :: "char \<Rightarrow> bool" where
  "is_lower_char c = (let n = (of_char c :: nat) in 97 \<le> n \<and> n \<le> 122)"

definition strip :: "string \<Rightarrow> string" where
  \<comment> \<open>\<^verbatim>\<open>s.strip()\<close>\<close>
  "strip s = rev (dropWhile is_space (rev (dropWhile is_space s)))"

definition startswith :: "string \<Rightarrow> string \<Rightarrow> bool" where
  \<comment> \<open>\<^verbatim>\<open>s.startswith(pre)\<close>\<close>
  "startswith s pre = (take (length pre) s = pre)"

definition isupper :: "string \<Rightarrow> bool" where
  \<comment> \<open>\<^verbatim>\<open>s.isupper()\<close>: at least one cased character, and no cased character in lower case.\<close>
  "isupper s = (list_ex is_upper_char s \<and> list_all (\<lambda>c. \<not> is_lower_char c) s)"

text \<open>
  \<^verbatim>\<open>int(s)\<close> in base 10: blanks around the literal are dropped, one sign may lead, and
  the digits may be grouped by single underscores. Any other string raises
  \<^verbatim>\<open>ValueError\<close>, here \<^const>\<open>None\<close>. The blanks \<^verbatim>\<open>int\<close> drops are fewer than
  those of \<^verbatim>\<open>str.strip\<close>: the separators FS, GS, RS and US make the literal invalid.
\<close>

definition int_strip :: "string \<Rightarrow> string" where
  "int_strip s = rev (dropWhile is_c_space (rev (dropWhile is_c_space s)))"

fun int_digits :: "nat \<Rightarrow> string \<Rightarrow> nat option" where
  "int_digits acc [] = Some acc"
| "int_digits acc [c] = (if is_digit c then Some (10 * acc + digit_val c) else None)"
| "int_digits acc (c # d # r) =
     (if is_digit c then int_digits (10 * acc + digit_val c) (d # r)
      else if c = CHR ''_'' \<and> is_digit d then int_digits (10 * acc + digit_val d) r
      else None)"

definition int_unsigned :: "string \<Rightarrow> nat option" where
  "int_unsigned s = (case s of [] \<Rightarrow> None
     | c # r \<Rightarrow> if is_digit c then int_digits (digit_val c) r else None)"

definition py_int :: "string \<Rightarrow> int option" where
  "py_int s = (case int_strip s of [] \<Rightarrow> None
     | c # r \<Rightarrow>
         if c = CHR ''-'' then map_option (\<lambda>n. - int n) (int_unsigned r)
         else if c = CHR ''+'' then map_option int (int_unsigned r)
         else map_option int (int_unsigned (c # r)))"

text \<open>
  A path below \<^verbatim>\<open>INSTRUCTIONS_DIR\<close> is the list of its components. \<^verbatim>\<open>pathlib\<close> (and
  the template loader) split a relative path string at the slashes and drop empty and
  \<^verbatim>\<open>.\<close> components. The model covers relative instruction paths and versions, which
  is what the source's docstrings describe: a \<^verbatim>\<open>..\<close> component resolves to nothing,
  and a leading slash is dropped like any empty component, as the template loader does,
  whereas \<^verbatim>\<open>pathlib\<close> would take such a path as absolute and leave the tree.
\<close>

type_synonym path = "string list"

fun split_slash :: "string \<Rightarrow> string list" where
  "split_slash [] = [[]]"
| "split_slash (c # cs) =
     (if c = CHR ''/'' then [] # split_slash cs
      else (case split_slash cs of [] \<Rightarrow> [[c]] | w # ws \<Rightarrow> (c # w) # ws))"

definition path_parts :: "string \<Rightarrow> path" where
  "path_parts s = filter (\<lambda>w. w \<noteq> [] \<and> w \<noteq> ''.'') (split_slash s)"

section \<open>Exceptions and Python values\<close>

text \<open>
  Every \<^verbatim>\<open>raise\<close> of the renderer is a value. A \<^verbatim>\<open>FileNotFoundError\<close> (the
  \<^verbatim>\<open>NotFoundError\<close> of the specification) carries which message the source formats and
  the path or instruction name it interpolates. \<^verbatim>\<open>SystemExit\<close> and
  \<^verbatim>\<open>KeyboardInterrupt\<close> derive from \<^verbatim>\<open>BaseException\<close> only: the
  \<^verbatim>\<open>except Exception\<close> clauses of the source do not catch them.
\<close>

datatype not_found =
    NoTemplateInAnyVersion string
  | InstructionDirectoryNotFound string
  | NoComposablesFound string
  | NoInstructionPyInAnyVersion string
  | InstructionFileNotFound path
  | NoValidCompositionMethod string
  | NoInstructionMdInAnyVersion string
  | MarkdownInstructionNotFound path
  | NoVersionDirectoriesFound string
  | NoValidInstructionFoundIn path
  | NoSuchFileOrDirectory path

datatype value_error = EmptyInstructionPath | InvalidIntLiteral string | EmptySequence

datatype exn =
    ValueError value_error
  | FileNotFoundError not_found
  | NotADirectoryError path
  | IsADirectoryError path
  | NameError string
  | UnboundLocalError string
  | AttributeError
  | TypeError
  | TemplateNotFound path
  | TemplateSyntaxError
  | UndefinedError string
  | Raised string
  | SystemExit
  | KeyboardInterrupt

fun is_exception :: "exn \<Rightarrow> bool" where
  \<comment> \<open>\<^verbatim>\<open>isinstance(e, Exception)\<close>\<close>
  "is_exception SystemExit = False"
| "is_exception KeyboardInterrupt = False"
| "is_exception e = True"

text \<open>
  Values bound in a module or passed as context keywords: a \<^verbatim>\<open>str\<close>, or another object
  known by its \<^verbatim>\<open>str()\<close> (and without a \<^verbatim>\<open>strip\<close> method). A top-level binding of a
  module is such a value or a callable, which maps the keyword arguments of a call to what
  the call returns or raises; its first component is the callable's \<^verbatim>\<open>str()\<close>.
\<close>

datatype pyval = PyStr string | PyObj string

type_synonym kwargs = "string \<rightharpoonup> pyval"

datatype binding = Value pyval | Callable string "kwargs \<Rightarrow> exn + pyval"

fun py_str :: "pyval \<Rightarrow> string" where
  "py_str (PyStr s) = s"
| "py_str (PyObj s) = s"

fun binding_str :: "binding \<Rightarrow> string" where
  "binding_str (Value x) = py_str x"
| "binding_str (Callable r f) = r"

fun callable :: "binding \<Rightarrow> bool" where
  "callable (Value x) = False"
| "callable (Callable r f) = True"

text \<open>
  Executing a Python file as a module (\<^verbatim>\<open>spec.loader.exec_module\<close>) binds names one after
  the other and may raise on the way: \<open>bindings\<close> are the top-level names bound when
  execution stopped, as \<^verbatim>\<open>dir(module)\<close> lists them (the module's own dunder attributes
  left out: both loaders skip every name that starts with an underscore), and \<open>raised\<close> is
  the exception that stopped it, if any.
\<close>

record py_exec =
  bindings :: "(string \<times> binding) list"
  raised :: "exn option"

text \<open>
  Modelled from the spec: the templating service is Jinja2, an external library that the
  specification treats as a black box with strict undefined-variable semantics (the
  environment of lines 18-22 sets \<^verbatim>\<open>undefined=StrictUndefined\<close>, \<^verbatim>\<open>autoescape=False\<close>).
  A compiled template is modelled as a sequence of literal text and plain variable outputs
  \<^verbatim>\<open>{{ name }}\<close>; rendering writes \<^verbatim>\<open>str(value)\<close> for a variable of the context and fails
  with \<^verbatim>\<open>UndefinedError\<close> at the first variable the context lacks. Filters, tests and
  control blocks of the template language are outside this fragment.
\<close>

datatype segment = Lit string | Var string

fun render_segments :: "(string \<rightharpoonup> binding) \<Rightarrow> segment list \<Rightarrow> exn + string" where
  "render_segments c [] = Inr []"
| "render_segments c (Lit s # r) =
     (case render_segments c r of Inl e \<Rightarrow> Inl e | Inr t \<Rightarrow> Inr (s @ t))"
| "render_segments c (Var x # r) =
     (case c x of None \<Rightarrow> Inl (UndefinedError x)
      | Some b \<Rightarrow> (case render_segments c r of Inl e \<Rightarrow> Inl e | Inr t \<Rightarrow> Inr (binding_str b @ t)))"

text \<open>
  A file is what each of its three readers makes of it: its text (\<^verbatim>\<open>f.read()\<close>), the
  template the templating service compiles it to (or the error of compiling it), and the
  outcome of executing it as a Python module. A directory lists its children by name, in
  the order \<^verbatim>\<open>iterdir()\<close> yields them.
\<close>

record artifact =
  as_text :: string
  as_template :: "exn + segment list"
  as_module :: py_exec

datatype node = File artifact | Dir "(string \<times> node) list"

fun walk :: "node \<Rightarrow> path \<Rightarrow> node option" where
  "walk n [] = Some n"
| "walk (File f) (c # cs) = None"
| "walk (Dir kids) (c # cs) = (case map_of kids c of None \<Rightarrow> None | Some k \<Rightarrow> walk k cs)"

definition path_exists :: "node \<Rightarrow> path \<Rightarrow> bool" where
  \<comment> \<open>\<^verbatim>\<open>(INSTRUCTIONS_DIR / p).exists()\<close>\<close>
  "path_exists root p = (case walk root p of None \<Rightarrow> False | Some n \<Rightarrow> True)"

definition is_dir :: "node \<Rightarrow> path \<Rightarrow> bool" where
  \<comment> \<open>\<^verbatim>\<open>(INSTRUCTIONS_DIR / p).is_dir()\<close>\<close>
  "is_dir root p = (case walk root p of Some (Dir kids) \<Rightarrow> True | _ \<Rightarrow> False)"

definition given :: "string option \<Rightarrow> string option" where
  \<comment> \<open>the test \<^verbatim>\<open>if version:\<close> on an \<^verbatim>\<open>Optional[str]\<close>: \<^verbatim>\<open>None\<close> and the empty string are false\<close>
  "given v = (case v of None \<Rightarrow> None | Some s \<Rightarrow> if s = [] then None else Some s)"

section \<open>Version directories\<close>

text \<open>
  Every function of the renderer lists the version directories of an instruction the same
  way: \<^verbatim>\<open>[d for d in instruction_dir.iterdir() if d.is_dir() and d.name.startswith('v')]\<close>.
  The model keeps the names, in listing order; the path of a child is the directory's path
  extended by the name.
\<close>

definition version_dirs :: "node \<Rightarrow> path \<Rightarrow> exn + string list" where
  "version_dirs root dir = (case walk root dir of
       None \<Rightarrow> Inl (FileNotFoundError (NoSuchFileOrDirectory dir))
     | Some (File f) \<Rightarrow> Inl (NotADirectoryError dir)
     | Some (Dir kids) \<Rightarrow>
         Inr (filter (\<lambda>n. is_dir root (dir @ [n]) \<and> startswith n ''v'') (map fst kids)))"

definition version_key :: "string \<Rightarrow> int option" where
  \<comment> \<open>\<^verbatim>\<open>int(d.name[1:])\<close>\<close>
  "version_key n = py_int (drop 1 n)"

text \<open>
  \<^verbatim>\<open>max(version_dirs, key=lambda d: int(d.name[1:]))\<close>: the keys are computed in listing
  order, the first failing one raises, and a later element replaces the best one only when
  its key is strictly greater.
\<close>

fun max_from :: "int \<Rightarrow> string \<Rightarrow> string list \<Rightarrow> exn + string" where
  "max_from bk b [] = Inr b"
| "max_from bk b (n # ns) = (case version_key n of
       None \<Rightarrow> Inl (ValueError (InvalidIntLiteral (drop 1 n)))
     | Some k \<Rightarrow> if bk < k then max_from k n ns else max_from bk b ns)"

definition latest_version :: "string list \<Rightarrow> exn + string" where
  "latest_version ns = (case ns of
       [] \<Rightarrow> Inl (ValueError EmptySequence)
     | n # r \<Rightarrow> (case version_key n of
           None \<Rightarrow> Inl (ValueError (InvalidIntLiteral (drop 1 n)))
         | Some k \<Rightarrow> max_from k n r))"

text \<open>
  \<^verbatim>\<open>version_dirs.sort(key=lambda d: int(d.name[1:]), reverse=True)\<close>: all keys are
  computed first, then the list is sorted by descending key, elements of equal key keeping
  their listing order.
\<close>

fun version_keys :: "string list \<Rightarrow> exn + (int \<times> string) list" where
  "version_keys [] = Inr []"
| "version_keys (n # ns) = (case version_key n of
       None \<Rightarrow> Inl (ValueError (InvalidIntLiteral (drop 1 n)))
     | Some k \<Rightarrow> (case version_keys ns of Inl e \<Rightarrow> Inl e | Inr r \<Rightarrow> Inr ((k, n) # r)))"

definition highest_first :: "string list \<Rightarrow> exn + string list" where
  "highest_first ns = (case version_keys ns of
       Inl e \<Rightarrow> Inl e
     | Inr kns \<Rightarrow> Inr (map snd (sort_key (\<lambda>kn. - fst kn) kns)))"

text \<open>
  The loop \<^verbatim>\<open>for version_dir in version_dirs: if (version_dir / artifact).exists(): ... break\<close>;
  \<^const>\<open>None\<close> is its \<^verbatim>\<open>else\<close> branch.
\<close>

fun first_with :: "node \<Rightarrow> path \<Rightarrow> string \<Rightarrow> string list \<Rightarrow> string option" where
  "first_with root dir a [] = None"
| "first_with root dir a (n # ns) =
     (if path_exists root (dir @ [n, a]) then Some n else first_with root dir a ns)"

section \<open>The value loader and the composable loader\<close>

definition exec_module :: "node \<Rightarrow> path \<Rightarrow> py_exec" where
  \<comment> \<open>\<^verbatim>\<open>spec_from_file_location\<close>, \<^verbatim>\<open>module_from_spec\<close>, \<^verbatim>\<open>spec.loader.exec_module\<close>\<close>
  "exec_module root f = (case walk root f of
       None \<Rightarrow> \<lparr>bindings = [], raised = Some (FileNotFoundError (NoSuchFileOrDirectory f))\<rparr>
     | Some (Dir kids) \<Rightarrow> \<lparr>bindings = [], raised = Some (IsADirectoryError f)\<rparr>
     | Some (File a) \<Rightarrow> as_module a)"

definition variables_version_dir :: "node \<Rightarrow> string \<Rightarrow> string option \<Rightarrow> exn + path option" where
  \<comment> \<open>lines 38-48 of \<^verbatim>\<open>_load_instruction_variables\<close>; \<^const>\<open>None\<close> is the early \<^verbatim>\<open>return {}\<close> of line 43\<close>
  "variables_version_dir root p v = (case given v of
       Some ver \<Rightarrow> Inr (Some (path_parts p @ path_parts ver))
     | None \<Rightarrow>
         if \<not> path_exists root (path_parts p) then Inr None
         else (case version_dirs root (path_parts p) of
             Inl e \<Rightarrow> Inl e
           | Inr [] \<Rightarrow> Inr (Some (path_parts p))
           | Inr (n # ns) \<Rightarrow> (case latest_version (n # ns) of
                 Inl e \<Rightarrow> Inl e
               | Inr m \<Rightarrow> Inr (Some (path_parts p @ [m])))))"

definition values_file :: "node \<Rightarrow> path \<Rightarrow> path option" where
  \<comment> \<open>lines 50-57: \<^verbatim>\<open>values.py\<close> is preferred, \<^verbatim>\<open>variables.py\<close> is the fallback\<close>
  "values_file root vd =
     (if path_exists root (vd @ [''values.py'']) then Some (vd @ [''values.py''])
      else if path_exists root (vd @ [''variables.py'']) then Some (vd @ [''variables.py''])
      else None)"

definition public_constants :: "(string \<times> binding) list \<Rightarrow> (string \<times> binding) list" where
  \<comment> \<open>lines 70-73: \<^verbatim>\<open>not attr_name.startswith('_') and attr_name.isupper()\<close>\<close>
  "public_constants ns = filter (\<lambda>nb. \<not> startswith (fst nb) ''_'' \<and> isupper (fst nb)) ns"

definition load_values_from :: "node \<Rightarrow> path \<Rightarrow> exn + (string \<times> binding) list" where
  \<comment> \<open>lines 59-82: an \<^verbatim>\<open>Exception\<close> of the load is caught (and at most logged) and \<^verbatim>\<open>{}\<close>
      returned; any other exception leaves the function\<close>
  "load_values_from root f = (let m = exec_module root f in
     case raised m of
       Some e \<Rightarrow> if is_exception e then Inr [] else Inl e
     | None \<Rightarrow> Inr (public_constants (bindings m)))"

definition load_instruction_variables ::
  "node \<Rightarrow> string \<Rightarrow> string option \<Rightarrow> exn + (string \<times> binding) list" where
  "load_instruction_variables root p v = (case variables_version_dir root p v of
       Inl e \<Rightarrow> Inl e
     | Inr None \<Rightarrow> Inr []
     | Inr (Some vd) \<Rightarrow> (case values_file root vd of
           None \<Rightarrow> Inr []
         | Some f \<Rightarrow> load_values_from root f))"

definition composables_file :: "node \<Rightarrow> string \<Rightarrow> string option \<Rightarrow> exn + path option" where
  \<comment> \<open>lines 151-164 of \<^verbatim>\<open>_load_instruction_composables\<close>; \<^const>\<open>None\<close> is the \<^verbatim>\<open>return {}\<close> of line 164\<close>
  "composables_file root p v = (case given v of
       Some ver \<Rightarrow> Inr (Some (path_parts p @ path_parts ver @ [''composables.py'']))
     | None \<Rightarrow>
         if path_exists root (path_parts p) then
           (case version_dirs root (path_parts p) of
             Inl e \<Rightarrow> Inl e
           | Inr [] \<Rightarrow> Inr (Some (path_parts p @ [''composables.py'']))
           | Inr (n # ns) \<Rightarrow> (case latest_version (n # ns) of
                 Inl e \<Rightarrow> Inl e
               | Inr m \<Rightarrow> Inr (Some (path_parts p @ [m, ''composables.py'']))))
         else Inr None)"

definition public_callables :: "(string \<times> binding) list \<Rightarrow> (string \<times> binding) list" where
  \<comment> \<open>lines 180-184: \<^verbatim>\<open>not attr_name.startswith('_') and callable(attr_value)\<close>\<close>
  "public_callables ns = filter (\<lambda>nb. \<not> startswith (fst nb) ''_'' \<and> callable (snd nb)) ns"

definition load_callables_from :: "node \<Rightarrow> path \<Rightarrow> exn + (string \<times> binding) list" where
  \<comment> \<open>lines 169-193, with the same handler as the value loader\<close>
  "load_callables_from root f = (let m = exec_module root f in
     case raised m of
       Some e \<Rightarrow> if is_exception e then Inr [] else Inl e
     | None \<Rightarrow> Inr (public_callables (bindings m)))"

definition load_instruction_composables ::
  "node \<Rightarrow> string \<Rightarrow> string option \<Rightarrow> exn + (string \<times> binding) list" where
  "load_instruction_composables root p v = (case composables_file root p v of
       Inl e \<Rightarrow> Inl e
     | Inr None \<Rightarrow> Inr []
     | Inr (Some f) \<Rightarrow>
         if \<not> path_exists root f then Inr [] else load_callables_from root f)"

section \<open>The three renderers and the dispatcher\<close>

definition template_path :: "node \<Rightarrow> string \<Rightarrow> string option \<Rightarrow> exn + path" where
  \<comment> \<open>lines 218-237 of \<^verbatim>\<open>render_template_instruction\<close>\<close>
  "template_path root p v = (case given v of
       Some ver \<Rightarrow> Inr (path_parts p @ path_parts ver @ [''instruction.j2''])
     | None \<Rightarrow>
         if path_exists root (path_parts p) then
           (case version_dirs root (path_parts p) of
             Inl e \<Rightarrow> Inl e
           | Inr ns \<Rightarrow> (case highest_first ns of
                 Inl e \<Rightarrow> Inl e
               | Inr hs \<Rightarrow> (case first_with root (path_parts p) ''instruction.j2'' hs of
                     Some n \<Rightarrow> Inr (path_parts p @ [n, ''instruction.j2''])
                   | None \<Rightarrow> Inl (FileNotFoundError (NoTemplateInAnyVersion p)))))
         else Inl (FileNotFoundError (InstructionDirectoryNotFound p)))"

definition get_template :: "node \<Rightarrow> path \<Rightarrow> exn + segment list" where
  \<comment> \<open>\<^verbatim>\<open>env.get_template\<close>: the loader wants a regular file below its search root\<close>
  "get_template root tp = (case walk root tp of
       Some (File a) \<Rightarrow> as_template a
     | _ \<Rightarrow> Inl (TemplateNotFound tp))"

definition merged_context :: "(string \<times> binding) list \<Rightarrow> kwargs \<Rightarrow> (string \<rightharpoonup> binding)" where
  \<comment> \<open>line 244: \<^verbatim>\<open>{**instruction_vars, **context_vars}\<close>\<close>
  "merged_context vars ctx = map_of vars ++ (map_option Value \<circ> ctx)"

definition render_template_instruction ::
  "node \<Rightarrow> string \<Rightarrow> string option \<Rightarrow> kwargs \<Rightarrow> exn + string" where
  "render_template_instruction root p v ctx =
     (if p = [] then Inl (ValueError EmptyInstructionPath)
      else (case template_path root p v of
          Inl e \<Rightarrow> Inl e
        | Inr tp \<Rightarrow> (case get_template root tp of
            Inl e \<Rightarrow> Inl e
          | Inr t \<Rightarrow> (case load_instruction_variables root p v of
              Inl e \<Rightarrow> Inl e
            | Inr vars \<Rightarrow> (case render_segments (merged_context vars ctx) t of
                Inl e \<Rightarrow> Inl e
              | Inr out \<Rightarrow> Inr (strip out))))))"

definition main_composer :: "(string \<times> binding) list \<Rightarrow> binding option" where
  \<comment> \<open>line 280: \<^verbatim>\<open>composables.get('compose_instruction') or composables.get('build_instruction')\<close>\<close>
  "main_composer cs = (case map_of cs ''compose_instruction'' of
       Some b \<Rightarrow> Some b
     | None \<Rightarrow> map_of cs ''build_instruction'')"

definition call_stripped :: "binding \<Rightarrow> kwargs \<Rightarrow> exn + string" where
  \<comment> \<open>line 284: \<^verbatim>\<open>main_composer(**context_vars).strip()\<close>, any exception re-raised\<close>
  "call_stripped b ctx = (case b of
       Value x \<Rightarrow> Inl TypeError
     | Callable r f \<Rightarrow> (case f ctx of
           Inl e \<Rightarrow> Inl e
         | Inr (PyStr s) \<Rightarrow> Inr (strip s)
         | Inr (PyObj s) \<Rightarrow> Inl AttributeError))"

definition instruction_py_path :: "node \<Rightarrow> string \<Rightarrow> string option \<Rightarrow> exn + path" where
  \<comment> \<open>lines 290-305 of \<^verbatim>\<open>compose_python_instruction\<close>\<close>
  "instruction_py_path root p v = (case given v of
       Some ver \<Rightarrow> Inr (path_parts p @ path_parts ver @ [''instruction.py''])
     | None \<Rightarrow>
         if path_exists root (path_parts p) then
           (case version_dirs root (path_parts p) of
             Inl e \<Rightarrow> Inl e
           | Inr ns \<Rightarrow> (case highest_first ns of
                 Inl e \<Rightarrow> Inl e
               | Inr hs \<Rightarrow> (case first_with root (path_parts p) ''instruction.py'' hs of
                     Some n \<Rightarrow> Inr (path_parts p @ [n, ''instruction.py''])
                   | None \<Rightarrow> Inl (FileNotFoundError (NoInstructionPyInAnyVersion p)))))
         else Inr (path_parts p))"

text \<open>
  In \<^verbatim>\<open>compose_python_instruction\<close> the fallback's \<^verbatim>\<open>try\<close> block (lines 310-326) starts
  with \<^verbatim>\<open>importlib.util.spec_from_file_location(...)\<close>. The module never imports
  \<^verbatim>\<open>importlib\<close> at top level: the imports of lines 61, 98, 125 and 171 are statements
  inside the three loader functions and bind the name in those functions only. Line 313
  therefore raises \<^verbatim>\<open>NameError\<close>, which the handler of lines 324-326 logs and re-raises;
  lines 314-323 and 328 are never reached.
\<close>

definition compose_python_instruction ::
  "node \<Rightarrow> string \<Rightarrow> string option \<Rightarrow> kwargs \<Rightarrow> exn + string" where
  "compose_python_instruction root p v ctx =
     (if p = [] then Inl (ValueError EmptyInstructionPath)
      else (case load_instruction_composables root p v of
          Inl e \<Rightarrow> Inl e
        | Inr [] \<Rightarrow> Inl (FileNotFoundError (NoComposablesFound p))
        | Inr (c # cs) \<Rightarrow> (case main_composer (c # cs) of
            Some b \<Rightarrow> call_stripped b ctx
          | None \<Rightarrow> (case instruction_py_path root p v of
              Inl e \<Rightarrow> Inl e
            | Inr ip \<Rightarrow>
                if \<not> path_exists root ip then Inl (FileNotFoundError (InstructionFileNotFound ip))
                else Inl (NameError ''importlib'')))))"

definition markdown_path :: "node \<Rightarrow> string \<Rightarrow> string option \<Rightarrow> exn + path" where
  \<comment> \<open>lines 352-368 of \<^verbatim>\<open>compose_markdown_instruction\<close>; with no instruction directory
      the variable of line 370 was never assigned\<close>
  "markdown_path root p v = (case given v of
       Some ver \<Rightarrow> Inr (path_parts p @ path_parts ver @ [''instruction.md''])
     | None \<Rightarrow>
         if path_exists root (path_parts p) then
           (case version_dirs root (path_parts p) of
             Inl e \<Rightarrow> Inl e
           | Inr ns \<Rightarrow> (case highest_first ns of
                 Inl e \<Rightarrow> Inl e
               | Inr hs \<Rightarrow> (case first_with root (path_parts p) ''instruction.md'' hs of
                     Some n \<Rightarrow> Inr (path_parts p @ [n, ''instruction.md''])
                   | None \<Rightarrow> Inl (FileNotFoundError (NoInstructionMdInAnyVersion p)))))
         else Inl (UnboundLocalError ''instruction_md_path''))"

definition compose_markdown_instruction ::
  "node \<Rightarrow> string \<Rightarrow> string option \<Rightarrow> kwargs \<Rightarrow> exn + string" where
  "compose_markdown_instruction root p v ctx =
     (if p = [] then Inl (ValueError EmptyInstructionPath)
      else (case markdown_path root p v of
          Inl e \<Rightarrow> Inl e
        | Inr mp \<Rightarrow> (case walk root mp of
            None \<Rightarrow> Inl (FileNotFoundError (MarkdownInstructionNotFound mp))
          | Some (Dir kids) \<Rightarrow> Inl (IsADirectoryError mp)
          | Some (File a) \<Rightarrow> Inr (strip (as_text a)))))"

definition base_path :: "node \<Rightarrow> string \<Rightarrow> string option \<Rightarrow> exn + path" where
  \<comment> \<open>lines 402-416 of \<^verbatim>\<open>render_instruction\<close>\<close>
  "base_path root p v = (case given v of
       Some ver \<Rightarrow> Inr (path_parts p @ path_parts ver)
     | None \<Rightarrow>
         if path_exists root (path_parts p) then
           (case version_dirs root (path_parts p) of
             Inl e \<Rightarrow> Inl e
           | Inr [] \<Rightarrow> Inl (FileNotFoundError (NoVersionDirectoriesFound p))
           | Inr (n # ns) \<Rightarrow> (case latest_version (n # ns) of
                 Inl e \<Rightarrow> Inl e
               | Inr m \<Rightarrow> Inr (path_parts p @ [m])))
         else Inl (FileNotFoundError (InstructionDirectoryNotFound p)))"

definition render_instruction ::
  "node \<Rightarrow> string \<Rightarrow> string option \<Rightarrow> kwargs \<Rightarrow> exn + string" where
  \<comment> \<open>lines 418-426: the first artifact present in the base directory decides\<close>
  "render_instruction root p v ctx = (case base_path root p v of
       Inl e \<Rightarrow> Inl e
     | Inr b \<Rightarrow>
         if path_exists root (b @ [''instruction.j2'']) then
           render_template_instruction root p v ctx
         else if path_exists root (b @ [''instruction.py''])
               \<or> path_exists root (b @ [''composables.py'']) then
           compose_python_instruction root p v ctx
         else if path_exists root (b @ [''instruction.md'']) then
           compose_markdown_instruction root p v ctx
         else Inl (FileNotFoundError (NoValidInstructionFoundIn b)))"

section \<open>Example instruction trees\<close>

text \<open>
  Concrete trees on which the theorems below are instantiated. A file is given by its
  three readings; \<open>markdown\<close>, \<open>jinja\<close> and \<open>python\<close> build the files of the examples.
\<close>

definition markdown :: "string \<Rightarrow> node" where
  "markdown s = File \<lparr>as_text = s, as_template = Inr [Lit s],
     as_module = \<lparr>bindings = [], raised = Some (Raised ''SyntaxError'')\<rparr>\<rparr>"

definition jinja :: "string \<Rightarrow> segment list \<Rightarrow> node" where
  "jinja s t = File \<lparr>as_text = s, as_template = Inr t,
     as_module = \<lparr>bindings = [], raised = Some (Raised ''SyntaxError'')\<rparr>\<rparr>"

definition python :: "string \<Rightarrow> py_exec \<Rightarrow> node" where
  "python s m = File \<lparr>as_text = s, as_template = Inr [Lit s], as_module = m\<rparr>"

definition numbered_tree :: node where
  "numbered_tree = Dir [(''agents'', Dir [(''assistant'', Dir
     [(''v2'', Dir [(''instruction.md'', markdown ''Two'')]),
      (''v10'', Dir [(''instruction.md'', markdown ''Ten'')]),
      (''notes.txt'', markdown ''v11''),
      (''v9'', Dir [(''instruction.md'', markdown ''Nine'')])])])]"

definition numbered_tree_relisted :: node where
  "numbered_tree_relisted = Dir [(''agents'', Dir [(''assistant'', Dir
     [(''v10'', Dir [(''instruction.md'', markdown ''Ten'')]),
      (''v9'', Dir [(''instruction.md'', markdown ''Nine'')]),
      (''v2'', Dir [(''instruction.md'', markdown ''Two'')]),
      (''notes.txt'', markdown ''v11'')])])]"

definition unversioned_tree :: node where
  "unversioned_tree = Dir [(''guardrails'', Dir
     [(''values.py'', python ''GREETING = 'hi'; note = 'x' ''
         \<lparr>bindings = [(''GREETING'', Value (PyStr ''hi'')), (''note'', Value (PyStr ''x''))],
          raised = None\<rparr>),
      (''composables.py'', python ''def compose_instruction(**kw): return ' composed ' ''
         \<lparr>bindings = [(''compose_instruction'', Callable ''<function compose_instruction>''
             (\<lambda>kw. Inr (PyStr '' composed '')))],
          raised = None\<rparr>),
      (''drafts'', Dir [])])]"

definition strategy_tree :: node where
  "strategy_tree = Dir [(''assistant'', Dir
     [(''v1'', Dir
        [(''instruction.md'', markdown ''Static text''),
         (''composables.py'', python ''def compose_instruction(**kw): return ' composed ' ''
            \<lparr>bindings = [(''compose_instruction'', Callable ''<function compose_instruction>''
                (\<lambda>kw. Inr (PyStr '' composed '')))],
             raised = None\<rparr>),
         (''instruction.j2'', jinja ''Hi {{ NAME }} '' [Lit ''Hi '', Var ''NAME'', Lit '' '']),
         (''values.py'', python ''NAME = 'default'; _HIDDEN = 'h'; lower = 'l' ''
            \<lparr>bindings = [(''NAME'', Value (PyStr ''default'')), (''_HIDDEN'', Value (PyStr ''h'')),
                (''lower'', Value (PyStr ''l''))],
             raised = None\<rparr>)]),
      (''v2'', Dir
        [(''instruction.md'', markdown ''Static text''),
         (''composables.py'', python ''def compose_instruction(**kw): return ' composed ' ''
            \<lparr>bindings = [(''compose_instruction'', Callable ''<function compose_instruction>''
                (\<lambda>kw. Inr (PyStr '' composed '')))],
             raised = None\<rparr>)]),
      (''v3'', Dir [(''instruction.md'', markdown ''Static text'')]),
      (''v4'', Dir [(''values.py'', python ''A = 'a'; B = 1 / 0''
            \<lparr>bindings = [(''A'', Value (PyStr ''a''))], raised = Some (Raised ''ZeroDivisionError'')\<rparr>)])])]"

definition greeter_tree :: node where
  "greeter_tree = Dir [(''greeter'', Dir [(''v1'', Dir
     [(''instruction.j2'', jinja ''Hi {{ NAME }} from {{ SENDER }}''
         [Lit ''Hi '', Var ''NAME'', Lit '' from '', Var ''SENDER'']),
      (''values.py'', python ''NAME = 'a' ''
         \<lparr>bindings = [(''NAME'', Value (PyStr ''a''))], raised = None\<rparr>)])])]"

definition template_versions_tree :: node where
  "template_versions_tree = Dir [(''assistant'', Dir
     [(''v1'', Dir [(''instruction.j2'', jinja ''First'' [Lit ''First''])]),
      (''v3'', Dir [(''instruction.md'', markdown ''Third'')]),
      (''v2'', Dir [(''instruction.j2'', jinja '' Second '' [Lit '' Second ''])])])]"

definition venv_tree :: node where
  "venv_tree = Dir [(''assistant'', Dir
     [(''venv'', Dir [(''pyvenv.cfg'', markdown ''home = /usr/bin'')]),
      (''v1'', Dir [(''instruction.md'', markdown ''Hello'')])])]"

definition mixed_children_tree :: node where
  "mixed_children_tree = Dir [(''assistant'', Dir
     [(''docs'', Dir [(''instruction.md'', markdown ''Docs'')]),
      (''v1'', Dir [(''instruction.md'', markdown ''One'')]),
      (''v7'', markdown ''a plain file''),
      (''v2'', Dir [(''instruction.md'', markdown ''Hello'')])])]"

definition helper_module :: py_exec where
  "helper_module = \<lparr>bindings = [(''helper'', Callable ''<function helper>''
      (\<lambda>kw. Inr (PyStr ''help'')))], raised = None\<rparr>"

definition instruction_py_tree :: node where
  "instruction_py_tree = Dir [(''assistant'', Dir [(''v1'', Dir
     [(''instruction.py'', python ''INSTRUCTION = ' Hello ' ''
         \<lparr>bindings = [(''INSTRUCTION'', Value (PyStr '' Hello ''))], raised = None\<rparr>)])])]"

definition helper_only_tree :: node where
  "helper_only_tree = Dir [(''assistant'', Dir [(''v1'', Dir
     [(''composables.py'', python ''def helper(**kw): return 'help' '' helper_module)])])]"

definition fallback_tree :: node where
  "fallback_tree = Dir [(''assistant'', Dir
     [(''v1'', Dir
        [(''composables.py'', python ''def helper(**kw): return 'help' '' helper_module),
         (''instruction.py'', python ''INSTRUCTION = ' Hello ' ''
            \<lparr>bindings = [(''INSTRUCTION'', Value (PyStr '' Hello ''))], raised = None\<rparr>)]),
      (''v2'', Dir
        [(''composables.py'', python ''def helper(**kw): return 'help' '' helper_module),
         (''instruction.py'', python ''def compose_instruction(**kw): return ' Hello ' ''
            \<lparr>bindings = [(''compose_instruction'', Callable ''<function compose_instruction>''
                (\<lambda>kw. Inr (PyStr '' Hello '')))], raised = None\<rparr>)])])]"

definition stale_values_tree :: node where
  "stale_values_tree = Dir [(''assistant'', Dir
     [(''v2'', Dir
        [(''instruction.j2'', jinja ''{{ NAME }}'' [Var ''NAME'']),
         (''values.py'', python ''NAME = 'old' ''
            \<lparr>bindings = [(''NAME'', Value (PyStr ''old''))], raised = None\<rparr>)]),
      (''v3'', Dir
        [(''values.py'', python ''NAME = 'new' ''
            \<lparr>bindings = [(''NAME'', Value (PyStr ''new''))], raised = None\<rparr>)])])]"

definition exit_tree :: node where
  "exit_tree = Dir [(''assistant'', Dir [(''v1'', Dir
     [(''values.py'', python ''A = 'a'; raise SystemExit(1)''
         \<lparr>bindings = [(''A'', Value (PyStr ''a''))], raised = Some SystemExit\<rparr>)])])]"


section \<open>Auxiliary facts: paths, version selection, rendering\<close>

lemma walk_append:
  "walk r (a @ b) = (case walk r a of None \<Rightarrow> None | Some d \<Rightarrow> walk d b)"
proof (induction a arbitrary: r)
  case Nil
  show ?case by simp
next
  case (Cons c cs)
  show ?case
  proof (cases r)
    case (File f)
    then show ?thesis by simp
  next
    case (Dir kids)
    then show ?thesis using Cons.IH by (simp split: option.splits)
  qed
qed

lemma walk_child:
  assumes "walk root dir = Some (Dir kids)"
  shows "walk root (dir @ [n]) = map_of kids n"
  using assms by (simp add: walk_append split: option.splits)

lemma max_from_keeps:
  assumes "version_key n = Some k"
    and "\<forall>m\<in>set ns. m \<noteq> n \<longrightarrow> (\<exists>j. version_key m = Some j \<and> j < k)"
  shows "max_from k n ns = Inr n"
  using assms
proof (induction ns)
  case Nil
  show ?case by simp
next
  case (Cons m ms)
  show ?case
  proof (cases "m = n")
    case True
    then show ?thesis using Cons by simp
  next
    case False
    then obtain j where "version_key m = Some j" "j < k" using Cons.prems by auto
    then show ?thesis using Cons by simp
  qed
qed

lemma max_from_reaches:
  assumes "version_key n = Some k"
    and "\<forall>m\<in>set ns. m \<noteq> n \<longrightarrow> (\<exists>j. version_key m = Some j \<and> j < k)"
    and "n \<in> set ns" and "bk < k"
  shows "max_from bk b ns = Inr n"
  using assms
proof (induction ns arbitrary: bk b)
  case Nil
  then show ?case by simp
next
  case (Cons m ms)
  show ?case
  proof (cases "m = n")
    case True
    have "max_from k n ms = Inr n"
      using Cons.prems(1,2) by (intro max_from_keeps) auto
    then show ?thesis using True Cons.prems by simp
  next
    case False
    then obtain j where j: "version_key m = Some j" "j < k" using Cons.prems by auto
    have in_ms: "n \<in> set ms" using Cons.prems False by auto
    have rest: "\<forall>m\<in>set ms. m \<noteq> n \<longrightarrow> (\<exists>j. version_key m = Some j \<and> j < k)"
      using Cons.prems by auto
    show ?thesis
    proof (cases "bk < j")
      case True
      then show ?thesis using j Cons.IH[OF Cons.prems(1) rest in_ms j(2)] by simp
    next
      case False
      then show ?thesis using j Cons.IH[OF Cons.prems(1) rest in_ms Cons.prems(4)] by simp
    qed
  qed
qed

lemma latest_version_unique_max:
  assumes "version_key n = Some k"
    and "\<forall>m\<in>set ns. m \<noteq> n \<longrightarrow> (\<exists>j. version_key m = Some j \<and> j < k)"
    and "n \<in> set ns"
  shows "latest_version ns = Inr n"
proof (cases ns)
  case Nil
  then show ?thesis using assms by simp
next
  case (Cons m ms)
  show ?thesis
  proof (cases "m = n")
    case True
    have "max_from k n ms = Inr n"
      using assms Cons by (intro max_from_keeps) auto
    then show ?thesis using True Cons assms by (simp add: latest_version_def)
  next
    case False
    then obtain j where j: "version_key m = Some j" "j < k" using assms Cons by auto
    have "max_from j m ms = Inr n"
      using assms Cons False j by (intro max_from_reaches[where k = k]) auto
    then show ?thesis using Cons j by (simp add: latest_version_def)
  qed
qed

lemma max_from_total:
  assumes "\<forall>n\<in>set ns. version_key n \<noteq> None" and "version_key b = Some bk"
  shows "\<exists>m\<in>set (b # ns). max_from bk b ns = Inr m
           \<and> (\<forall>n\<in>set (b # ns). the (version_key n) \<le> the (version_key m))"
  using assms
proof (induction ns arbitrary: bk b)
  case Nil
  then show ?case by simp
next
  case (Cons x xs)
  then obtain k where k: "version_key x = Some k" by auto
  have rest: "\<forall>n\<in>set xs. version_key n \<noteq> None" using Cons.prems by simp
  show ?case
  proof (cases "bk < k")
    case True
    from Cons.IH[OF rest k] obtain m where m: "m \<in> set (x # xs)" "max_from k x xs = Inr m"
      "\<forall>n\<in>set (x # xs). the (version_key n) \<le> the (version_key m)" by blast
    have "the (version_key b) \<le> the (version_key m)" using m(3) k True Cons.prems(2) by force
    then show ?thesis using m k True by auto
  next
    case False
    from Cons.IH[OF rest Cons.prems(2)] obtain m where m: "m \<in> set (b # xs)" "max_from bk b xs = Inr m"
      "\<forall>n\<in>set (b # xs). the (version_key n) \<le> the (version_key m)" by blast
    have "the (version_key x) \<le> the (version_key m)" using m(3) k False Cons.prems(2) by force
    then show ?thesis using m k False by auto
  qed
qed

lemma latest_version_total:
  assumes "\<forall>n\<in>set ns. version_key n \<noteq> None" and "ns \<noteq> []"
  shows "\<exists>m\<in>set ns. latest_version ns = Inr m
           \<and> (\<forall>n\<in>set ns. the (version_key n) \<le> the (version_key m))"
proof (cases ns)
  case Nil
  then show ?thesis using assms by simp
next
  case (Cons b r)
  then obtain bk where bk: "version_key b = Some bk" using assms by auto
  have "\<forall>n\<in>set r. version_key n \<noteq> None" using assms Cons by simp
  from max_from_total[OF this bk] show ?thesis using Cons bk by (simp add: latest_version_def)
qed

lemmas char_defs = is_space_def is_c_space_def is_digit_def digit_val_def is_upper_char_def
  is_lower_char_def

lemmas int_defs = version_key_def py_int_def int_strip_def int_unsigned_def char_defs

lemma is_dir_child:
  assumes "walk root dir = Some (Dir kids)"
  shows "is_dir root (dir @ [n]) = (\<exists>c. map_of kids n = Some (Dir c))"
  using assms by (auto simp: is_dir_def walk_child split: option.splits node.splits)

lemma version_dirs_set:
  assumes "walk root dir = Some (Dir kids)" and "distinct (map fst kids)"
  shows "\<exists>ns. version_dirs root dir = Inr ns
           \<and> set ns = {n. startswith n ''v'' \<and> (\<exists>c. (n, Dir c) \<in> set kids)}"
proof -
  have "is_dir root (dir @ [n]) = (\<exists>c. (n, Dir c) \<in> set kids)" for n
    using assms by (simp add: is_dir_child)
  then show ?thesis using assms(1) by (force simp: version_dirs_def)
qed

lemma version_dirs_none:
  assumes "walk root dir = Some (Dir kids)"
    and "\<forall>(m, d)\<in>set kids. \<not> (startswith m ''v'' \<and> (\<exists>c. d = Dir c))"
  shows "version_dirs root dir = Inr []"
proof -
  have "\<not> (is_dir root (dir @ [n]) \<and> startswith n ''v'')" for n
    using assms by (auto simp: is_dir_child dest!: map_of_SomeD)
  then show ?thesis using assms(1) by (simp add: version_dirs_def)
qed

lemma map_of_filter_fst:
  "map_of (filter (\<lambda>nb. P (fst nb)) xs) k = (if P k then map_of xs k else None)"
  by (induction xs) auto

lemma given_Some: "s \<noteq> [] \<Longrightarrow> given (Some s) = Some s"
  by (simp add: given_def)

lemma render_segments_undefined:
  assumes "Var x \<in> set t" and "c x = None"
  shows "\<exists>y. render_segments c t = Inl (UndefinedError y) \<and> Var y \<in> set t \<and> c y = None"
  using assms
proof (induction t)
  case Nil
  then show ?case by simp
next
  case (Cons s r)
  show ?case
  proof (cases s)
    case (Lit l)
    then have "Var x \<in> set r" using Cons.prems by auto
    from Cons.IH[OF this Cons.prems(2)] show ?thesis using Lit by auto
  next
    case (Var y)
    show ?thesis
    proof (cases "c y")
      case None
      then show ?thesis using Var by auto
    next
      case (Some b)
      then have "Var x \<in> set r" using Cons.prems Var by auto
      from Cons.IH[OF this Cons.prems(2)] show ?thesis using Var Some by auto
    qed
  qed
qed

lemma merged_context_lookup:
  "merged_context vars ctx x = (case ctx x of Some b \<Rightarrow> Some (Value b) | None \<Rightarrow> map_of vars x)"
  by (simp add: merged_context_def map_add_def split: option.splits)

lemma version_keys_all:
  assumes "\<forall>n\<in>set ns. version_key n \<noteq> None"
  shows "version_keys ns = Inr (map (\<lambda>n. (the (version_key n), n)) ns)"
  using assms by (induction ns) auto

lemma highest_first_sorted:
  assumes "\<forall>n\<in>set ns. version_key n \<noteq> None"
  shows "\<exists>hs. highest_first ns = Inr hs \<and> set hs = set ns
           \<and> sorted (map (\<lambda>n. - the (version_key n)) hs)"
proof -
  let ?kns = "map (\<lambda>n. (the (version_key n), n)) ns"
  let ?s = "sort_key (\<lambda>kn. - fst kn) ?kns"
  have hf: "highest_first ns = Inr (map snd ?s)"
    using assms by (simp add: highest_first_def version_keys_all)
  have set_s: "set ?s = set ?kns" by simp
  have "set (map snd ?s) = snd ` set ?kns" using set_s by simp
  also have "\<dots> = set ns" by force
  finally have st: "set (map snd ?s) = set ns" .
  have key: "fst kn = the (version_key (snd kn))" if "kn \<in> set ?s" for kn
    using that set_s by auto
  have eq: "map (\<lambda>n. - the (version_key n)) (map snd ?s) = map (\<lambda>kn. - fst kn) ?s"
    using key by simp
  have "sorted (map (\<lambda>kn. - fst kn) ?s)" by (rule sorted_sort_key)
  then have "sorted (map (\<lambda>n. - the (version_key n)) (map snd ?s))" by (simp only: eq)
  then show ?thesis using hf st by blast
qed

lemma first_with_None:
  "first_with root dir a hs = None \<longleftrightarrow> (\<forall>x\<in>set hs. \<not> path_exists root (dir @ [x, a]))"
  by (induction hs) auto

lemma first_with_Some:
  assumes "first_with root dir a hs = Some n"
  shows "\<exists>xs ys. hs = xs @ n # ys \<and> path_exists root (dir @ [n, a])
           \<and> (\<forall>x\<in>set xs. \<not> path_exists root (dir @ [x, a]))"
  using assms
proof (induction hs)
  case Nil
  then show ?case by simp
next
  case (Cons h hs)
  show ?case
  proof (cases "path_exists root (dir @ [h, a])")
    case True
    then have "h = n" using Cons.prems by simp
    then have "h # hs = [] @ n # hs" by simp
    then show ?thesis using True \<open>h = n\<close> by fastforce
  next
    case False
    then have "first_with root dir a hs = Some n" using Cons.prems by simp
    from Cons.IH[OF this] obtain xs ys where s: "hs = xs @ n # ys"
      "path_exists root (dir @ [n, a])" "\<forall>x\<in>set xs. \<not> path_exists root (dir @ [x, a])" by blast
    have "h # hs = (h # xs) @ n # ys" using s(1) by simp
    moreover have "\<forall>x\<in>set (h # xs). \<not> path_exists root (dir @ [x, a])" using s(3) False by simp
    ultimately show ?thesis using s(2) by blast
  qed
qed

lemma first_with_highest:
  assumes srt: "sorted (map (\<lambda>n. - the (version_key n)) hs)"
    and n_in: "n \<in> set hs" and key: "version_key n = Some k"
    and ex: "path_exists root (dir @ [n, a])"
    and others: "\<forall>m\<in>set hs. m \<noteq> n \<and> path_exists root (dir @ [m, a])
                   \<longrightarrow> (\<exists>j. version_key m = Some j \<and> j < k)"
  shows "first_with root dir a hs = Some n"
proof (cases "first_with root dir a hs")
  case None
  then show ?thesis using n_in ex by (simp add: first_with_None)
next
  case (Some m)
  from first_with_Some[OF Some] obtain xs ys where s: "hs = xs @ m # ys"
    "path_exists root (dir @ [m, a])" "\<forall>x\<in>set xs. \<not> path_exists root (dir @ [x, a])" by blast
  show ?thesis
  proof (cases "m = n")
    case True
    then show ?thesis using Some by simp
  next
    case False
    have "m \<in> set hs" using s(1) by simp
    then obtain j where j: "version_key m = Some j" "j < k" using others False s(2) by blast
    have "n \<notin> set xs" using s(3) ex by blast
    then have "n \<in> set ys" using n_in s(1) False by auto
    have "sorted (map (\<lambda>n. - the (version_key n)) (m # ys))"
      using srt s(1) by (simp add: sorted_append)
    then have "- the (version_key m) \<le> - the (version_key n)"
      using \<open>n \<in> set ys\<close> by simp
    then have "k \<le> j" using j key by simp
    then show ?thesis using j(2) by simp
  qed
qed

lemma version_dirs_exists:
  assumes "version_dirs root dir = Inr ns"
  shows "path_exists root dir"
  using assms by (auto simp: version_dirs_def path_exists_def split: option.splits node.splits)

lemma version_dirs_members:
  assumes "walk root dir = Some (Dir kids)"
  shows "\<exists>ns. version_dirs root dir = Inr ns
           \<and> (\<forall>m. m \<in> set ns \<longleftrightarrow> startswith m ''v'' \<and> (\<exists>c. map_of kids m = Some (Dir c)))"
proof -
  have "is_dir root (dir @ [m]) = (\<exists>c. map_of kids m = Some (Dir c))" for m
    using assms by (rule is_dir_child)
  moreover have "m \<in> fst ` set kids" if "map_of kids m = Some d" for m d
    using that by (metis map_of_SomeD fst_conv image_eqI)
  ultimately show ?thesis using assms by (auto simp: version_dirs_def)
qed

section \<open>Evaluating the example trees\<close>

lemma parts_agents_assistant: "path_parts ''agents/assistant'' = [''agents'', ''assistant'']"
  by (simp add: path_parts_def)

lemma key_v2: "version_key ''v2'' = Some 2" by (simp add: int_defs)

lemma key_v9: "version_key ''v9'' = Some 9" by (simp add: int_defs)

lemma key_v10: "version_key ''v10'' = Some 10" by (simp add: int_defs)

lemma parts_assistant: "path_parts ''assistant'' = [''assistant'']"
  by (simp add: path_parts_def)

lemma parts_version:
  "path_parts ''v1'' = [''v1'']" "path_parts ''v2'' = [''v2'']"
  "path_parts ''v3'' = [''v3'']" "path_parts ''v4'' = [''v4'']"
  by (simp_all add: path_parts_def)

lemma strategy_base:
  "base_path strategy_tree ''assistant'' (Some ''v1'') = Inr [''assistant'', ''v1'']"
  "base_path strategy_tree ''assistant'' (Some ''v2'') = Inr [''assistant'', ''v2'']"
  "base_path strategy_tree ''assistant'' (Some ''v3'') = Inr [''assistant'', ''v3'']"
  "base_path strategy_tree ''assistant'' (Some ''v4'') = Inr [''assistant'', ''v4'']"
  by (simp_all add: base_path_def given_Some parts_assistant parts_version)

lemma strategy_template:
  "render_template_instruction strategy_tree ''assistant'' (Some ''v1'') Map.empty = Inr ''Hi default''"
  by (simp add: render_template_instruction_def template_path_def given_Some parts_assistant
      parts_version get_template_def strategy_tree_def jinja_def python_def markdown_def
      load_instruction_variables_def variables_version_dir_def values_file_def path_exists_def
      load_values_from_def exec_module_def public_constants_def startswith_def isupper_def
      char_defs merged_context_def strip_def)

lemma strategy_compose:
  "compose_python_instruction strategy_tree ''assistant'' (Some ''v2'') Map.empty = Inr ''composed''"
  by (simp add: compose_python_instruction_def load_instruction_composables_def
      composables_file_def given_Some parts_assistant parts_version strategy_tree_def
      python_def markdown_def path_exists_def load_callables_from_def exec_module_def
      public_callables_def startswith_def main_composer_def call_stripped_def strip_def char_defs)

lemma strategy_markdown:
  "compose_markdown_instruction strategy_tree ''assistant'' (Some ''v3'') Map.empty = Inr ''Static text''"
  by (simp add: compose_markdown_instruction_def markdown_path_def given_Some parts_assistant
      parts_version strategy_tree_def markdown_def strip_def char_defs)

lemma strategy_values_dirs:
  "variables_version_dir strategy_tree ''assistant'' (Some ''v4'') = Inr (Some [''assistant'', ''v4''])"
  "variables_version_dir strategy_tree ''assistant'' (Some ''v1'') = Inr (Some [''assistant'', ''v1''])"
  by (simp_all add: variables_version_dir_def given_Some parts_assistant parts_version)

lemma strategy_values_files:
  "values_file strategy_tree [''assistant'', ''v4''] = Some [''assistant'', ''v4'', ''values.py'']"
  "values_file strategy_tree [''assistant'', ''v1''] = Some [''assistant'', ''v1'', ''values.py'']"
  by (simp_all add: values_file_def path_exists_def strategy_tree_def)

lemma strategy_values_exec:
  "exec_module strategy_tree [''assistant'', ''v4'', ''values.py'']
     = \<lparr>bindings = [(''A'', Value (PyStr ''a''))], raised = Some (Raised ''ZeroDivisionError'')\<rparr>"
  "exec_module strategy_tree [''assistant'', ''v1'', ''values.py'']
     = \<lparr>bindings = [(''NAME'', Value (PyStr ''default'')), (''_HIDDEN'', Value (PyStr ''h'')),
                (''lower'', Value (PyStr ''l''))], raised = None\<rparr>"
  by (simp_all add: exec_module_def strategy_tree_def python_def)

lemma parts_guardrails: "path_parts ''guardrails'' = [''guardrails'']"
  by (simp add: path_parts_def)

lemma parts_greeter: "path_parts ''greeter'' = [''greeter'']"
  by (simp add: path_parts_def)

lemma greeter_template_path:
  "template_path greeter_tree ''greeter'' (Some ''v1'') = Inr [''greeter'', ''v1'', ''instruction.j2'']"
  by (simp add: template_path_def given_Some parts_greeter parts_version)

lemma greeter_template:
  "get_template greeter_tree [''greeter'', ''v1'', ''instruction.j2'']
     = Inr [Lit ''Hi '', Var ''NAME'', Lit '' from '', Var ''SENDER'']"
  by (simp add: get_template_def greeter_tree_def jinja_def)

lemma greeter_values:
  "load_instruction_variables greeter_tree ''greeter'' (Some ''v1'') = Inr [(''NAME'', Value (PyStr ''a''))]"
  by (simp add: load_instruction_variables_def variables_version_dir_def given_Some parts_greeter
      parts_version values_file_def path_exists_def greeter_tree_def python_def jinja_def
      load_values_from_def exec_module_def public_constants_def startswith_def isupper_def char_defs)

lemma key_v1: "version_key ''v1'' = Some 1" by (simp add: int_defs)

lemma key_v3: "version_key ''v3'' = Some 3" by (simp add: int_defs)

lemma template_versions_dirs:
  "version_dirs template_versions_tree (path_parts ''assistant'') = Inr [''v1'', ''v3'', ''v2'']"
  by (simp add: version_dirs_def parts_assistant template_versions_tree_def is_dir_def
      startswith_def)

lemma numbered_dirs:
  "version_dirs numbered_tree (path_parts ''agents/assistant'') = Inr [''v2'', ''v10'', ''v9'']"
  by (simp add: version_dirs_def parts_agents_assistant numbered_tree_def is_dir_def
      startswith_def markdown_def)

lemma template_versions_latest:
  "latest_version [''v1'', ''v3'', ''v2''] = Inr ''v3''"
  by (simp add: latest_version_def key_v1 key_v2 key_v3)

lemma template_versions_values:
  "load_instruction_variables template_versions_tree ''assistant'' None = Inr []"
proof -
  have ex: "path_exists template_versions_tree (path_parts ''assistant'')"
    using template_versions_dirs by (rule version_dirs_exists)
  have vd: "variables_version_dir template_versions_tree ''assistant'' None
      = Inr (Some (path_parts ''assistant'' @ [''v3'']))"
    by (simp add: variables_version_dir_def given_def ex template_versions_dirs
        template_versions_latest)
  have vf: "values_file template_versions_tree (path_parts ''assistant'' @ [''v3'']) = None"
    by (simp add: values_file_def path_exists_def parts_assistant template_versions_tree_def)
  show ?thesis by (simp add: load_instruction_variables_def vd vf)
qed

lemma venv_dirs:
  "version_dirs venv_tree (path_parts ''assistant'') = Inr [''venv'', ''v1'']"
  by (simp add: version_dirs_def parts_assistant venv_tree_def is_dir_def startswith_def)

lemma key_venv: "version_key ''venv'' = None" by (simp add: int_defs)

lemma venv_latest: "latest_version [''venv'', ''v1''] = Inl (ValueError (InvalidIntLiteral ''env''))"
  by (simp add: latest_version_def key_venv)

lemma venv_base:
  "base_path venv_tree ''assistant'' None = Inl (ValueError (InvalidIntLiteral ''env''))"
proof -
  have ex: "path_exists venv_tree (path_parts ''assistant'')"
    using venv_dirs by (rule version_dirs_exists)
  show ?thesis by (simp add: base_path_def given_def ex venv_dirs venv_latest)
qed

lemma venv_variables_dir:
  "variables_version_dir venv_tree ''assistant'' None = Inl (ValueError (InvalidIntLiteral ''env''))"
proof -
  have ex: "path_exists venv_tree (path_parts ''assistant'')"
    using venv_dirs by (rule version_dirs_exists)
  show ?thesis by (simp add: variables_version_dir_def given_def ex venv_dirs venv_latest)
qed

lemma mixed_dirs:
  "version_dirs mixed_children_tree (path_parts ''assistant'') = Inr [''v1'', ''v2'']"
  by (simp add: version_dirs_def parts_assistant mixed_children_tree_def is_dir_def
      startswith_def markdown_def)

lemma instruction_py_tree_dirs:
  "version_dirs instruction_py_tree (path_parts ''assistant'') = Inr [''v1'']"
  by (simp add: version_dirs_def parts_assistant instruction_py_tree_def is_dir_def startswith_def)

lemma latest_v1: "latest_version [''v1''] = Inr ''v1''"
  by (simp add: latest_version_def key_v1)

lemma instruction_py_tree_composables:
  "load_instruction_composables instruction_py_tree ''assistant'' None = Inr []"
proof -
  have ex: "path_exists instruction_py_tree (path_parts ''assistant'')"
    using instruction_py_tree_dirs by (rule version_dirs_exists)
  have cf: "composables_file instruction_py_tree ''assistant'' None
      = Inr (Some (path_parts ''assistant'' @ [''v1'', ''composables.py'']))"
    by (simp add: composables_file_def given_def ex instruction_py_tree_dirs latest_v1)
  have "\<not> path_exists instruction_py_tree (path_parts ''assistant'' @ [''v1'', ''composables.py''])"
    by (simp add: path_exists_def parts_assistant instruction_py_tree_def)
  then show ?thesis by (simp add: load_instruction_composables_def cf)
qed

lemma instruction_py_tree_base:
  "base_path instruction_py_tree ''assistant'' None = Inr (path_parts ''assistant'' @ [''v1''])"
proof -
  have ex: "path_exists instruction_py_tree (path_parts ''assistant'')"
    using instruction_py_tree_dirs by (rule version_dirs_exists)
  show ?thesis by (simp add: base_path_def given_def ex instruction_py_tree_dirs latest_v1)
qed

lemma helper_only_composables:
  "\<exists>c. load_instruction_composables helper_only_tree ''assistant'' (Some ''v1'') = Inr [c]
       \<and> main_composer [c] = None"
  by (simp add: load_instruction_composables_def composables_file_def given_Some parts_assistant
      parts_version path_exists_def helper_only_tree_def python_def load_callables_from_def
      exec_module_def helper_module_def public_callables_def startswith_def main_composer_def)

lemma helper_only_instruction_py:
  "instruction_py_path helper_only_tree ''assistant'' (Some ''v1'')
     = Inr [''assistant'', ''v1'', ''instruction.py'']"
  "\<not> path_exists helper_only_tree [''assistant'', ''v1'', ''instruction.py'']"
  by (simp_all add: instruction_py_path_def given_Some parts_assistant parts_version
      path_exists_def helper_only_tree_def)

lemma strategy_composables:
  "\<exists>c b. load_instruction_composables strategy_tree ''assistant'' (Some ''v2'') = Inr [c]
       \<and> main_composer [c] = Some b \<and> call_stripped b Map.empty = Inr ''composed''"
  by (simp add: load_instruction_composables_def composables_file_def given_Some parts_assistant
      parts_version path_exists_def strategy_tree_def python_def markdown_def
      load_callables_from_def exec_module_def public_callables_def startswith_def
      main_composer_def call_stripped_def strip_def char_defs)

lemma fallback_composables:
  "\<exists>c. load_instruction_composables fallback_tree ''assistant'' (Some ''v1'') = Inr [c]
       \<and> main_composer [c] = None"
  "\<exists>c. load_instruction_composables fallback_tree ''assistant'' (Some ''v2'') = Inr [c]
       \<and> main_composer [c] = None"
  by (simp_all add: load_instruction_composables_def composables_file_def given_Some parts_assistant
      parts_version path_exists_def fallback_tree_def python_def load_callables_from_def
      exec_module_def helper_module_def public_callables_def startswith_def main_composer_def)

lemma fallback_instruction_py:
  "instruction_py_path fallback_tree ''assistant'' (Some ''v1'')
     = Inr [''assistant'', ''v1'', ''instruction.py'']"
  "instruction_py_path fallback_tree ''assistant'' (Some ''v2'')
     = Inr [''assistant'', ''v2'', ''instruction.py'']"
  "path_exists fallback_tree [''assistant'', ''v1'', ''instruction.py'']"
  "path_exists fallback_tree [''assistant'', ''v2'', ''instruction.py'']"
  by (simp_all add: instruction_py_path_def given_Some parts_assistant parts_version
      path_exists_def fallback_tree_def)

lemma stale_dirs:
  "version_dirs stale_values_tree (path_parts ''assistant'') = Inr [''v2'', ''v3'']"
  by (simp add: version_dirs_def parts_assistant stale_values_tree_def is_dir_def startswith_def)

lemma stale_latest: "latest_version [''v2'', ''v3''] = Inr ''v3''"
  by (simp add: latest_version_def key_v2 key_v3)

lemma stale_highest_first: "highest_first [''v2'', ''v3''] = Inr [''v3'', ''v2'']"
  by (simp add: highest_first_def key_v2 key_v3)

lemma stale_template_path:
  "template_path stale_values_tree ''assistant'' None = Inr [''assistant'', ''v2'', ''instruction.j2'']"
proof -
  have ex: "path_exists stale_values_tree (path_parts ''assistant'')"
    using stale_dirs by (rule version_dirs_exists)
  have e3: "\<not> path_exists stale_values_tree (path_parts ''assistant'' @ [''v3'', ''instruction.j2''])"
    and e2: "path_exists stale_values_tree (path_parts ''assistant'' @ [''v2'', ''instruction.j2''])"
    by (simp_all add: parts_assistant path_exists_def stale_values_tree_def)
  have "template_path stale_values_tree ''assistant'' None
      = Inr (path_parts ''assistant'' @ [''v2'', ''instruction.j2''])"
    by (simp add: template_path_def given_def ex stale_dirs stale_highest_first e2 e3)
  then show ?thesis by (simp add: parts_assistant)
qed

lemma numbered_highest_first: "highest_first [''v2'', ''v10'', ''v9''] = Inr [''v10'', ''v9'', ''v2'']"
  by (simp add: highest_first_def key_v2 key_v9 key_v10)

lemma numbered_markdown:
  "compose_markdown_instruction numbered_tree ''agents/assistant'' None Map.empty = Inr ''Ten''"
proof -
  have ex: "path_exists numbered_tree (path_parts ''agents/assistant'')"
    using numbered_dirs by (rule version_dirs_exists)
  have e: "path_exists numbered_tree (path_parts ''agents/assistant'' @ [''v10'', ''instruction.md''])"
    by (simp add: parts_agents_assistant path_exists_def numbered_tree_def)
  have mp: "markdown_path numbered_tree ''agents/assistant'' None
      = Inr (path_parts ''agents/assistant'' @ [''v10'', ''instruction.md''])"
    by (simp add: markdown_path_def given_def ex numbered_dirs numbered_highest_first e)
  have w: "walk numbered_tree (path_parts ''agents/assistant'' @ [''v10'', ''instruction.md''])
      = Some (markdown ''Ten'')"
    by (simp add: parts_agents_assistant numbered_tree_def)
  have st: "strip ''Ten'' = ''Ten''" by (simp add: strip_def char_defs)
  show ?thesis
    by (simp add: compose_markdown_instruction_def mp w) (simp add: markdown_def st)
qed

lemma numbered_artifacts:
  "\<not> path_exists numbered_tree ((path_parts ''agents/assistant'' @ [''v10'']) @ [''instruction.j2''])"
  "\<not> path_exists numbered_tree ((path_parts ''agents/assistant'' @ [''v10'']) @ [''instruction.py''])"
  "\<not> path_exists numbered_tree ((path_parts ''agents/assistant'' @ [''v10'']) @ [''composables.py''])"
  "path_exists numbered_tree ((path_parts ''agents/assistant'' @ [''v10'']) @ [''instruction.md''])"
  by (simp_all add: parts_agents_assistant path_exists_def numbered_tree_def)

lemma exit_values_dir:
  "variables_version_dir exit_tree ''assistant'' (Some ''v1'') = Inr (Some [''assistant'', ''v1''])"
  by (simp add: variables_version_dir_def given_Some parts_assistant parts_version)

lemma exit_values_file:
  "values_file exit_tree [''assistant'', ''v1''] = Some [''assistant'', ''v1'', ''values.py'']"
  by (simp add: values_file_def path_exists_def exit_tree_def)

lemma exit_values_exec:
  "exec_module exit_tree [''assistant'', ''v1'', ''values.py'']
     = \<lparr>bindings = [(''A'', Value (PyStr ''a''))], raised = Some SystemExit\<rparr>"
  by (simp add: exec_module_def exit_tree_def python_def)

section \<open>The claims\<close>

text \<open>
  C1, as stated, fails: the claim has \<^verbatim>\<open>compose_python_instruction\<close> fall back to
  \<^verbatim>\<open>instruction.py\<close> when no composables are loaded. The guard of lines 276-277 raises
  \<^verbatim>\<open>FileNotFoundError\<close> on an empty composables mapping before the fallback is looked at:
  an instruction whose only artifact is an \<^verbatim>\<open>instruction.py\<close> with a precomputed constant
  is not composed, although the constant exists.
\<close>

theorem instruction_py_alone_is_not_composed:
  "path_exists instruction_py_tree [''assistant'', ''v1'', ''instruction.py'']
   \<and> compose_python_instruction instruction_py_tree ''assistant'' None Map.empty
     = Inl (FileNotFoundError (NoComposablesFound ''assistant''))
   \<and> render_instruction instruction_py_tree ''assistant'' None Map.empty
     = Inl (FileNotFoundError (NoComposablesFound ''assistant''))"
proof -
  have 1: "path_exists instruction_py_tree [''assistant'', ''v1'', ''instruction.py'']"
    by (simp add: path_exists_def instruction_py_tree_def)
  have 2: "compose_python_instruction instruction_py_tree ''assistant'' None Map.empty
     = Inl (FileNotFoundError (NoComposablesFound ''assistant''))"
    by (simp add: compose_python_instruction_def instruction_py_tree_composables)
  have 3: "\<not> path_exists instruction_py_tree ((path_parts ''assistant'' @ [''v1'']) @ [''instruction.j2''])"
    by (simp add: path_exists_def parts_assistant instruction_py_tree_def)
  have 4: "path_exists instruction_py_tree ((path_parts ''assistant'' @ [''v1'']) @ [''instruction.py''])"
    by (simp add: path_exists_def parts_assistant instruction_py_tree_def)
  have "render_instruction instruction_py_tree ''assistant'' None Map.empty
     = compose_python_instruction instruction_py_tree ''assistant'' None Map.empty"
    using 3 4 by (simp add: render_instruction_def instruction_py_tree_base)
  then show ?thesis using 1 2 by simp
qed

text \<open>
  C1, amended. When loading composables yields an empty mapping,
  \<^verbatim>\<open>compose_python_instruction\<close> fails at that point with \<^verbatim>\<open>FileNotFoundError\<close> and does
  not look at \<^verbatim>\<open>instruction.py\<close>. A loaded composer (\<^verbatim>\<open>compose_instruction\<close>, else
  \<^verbatim>\<open>build_instruction\<close>) is called and its result trimmed. The \<^verbatim>\<open>instruction.py\<close>
  fallback is tried only when composables were loaded and none of them is a composer, and
  it fails with \<^verbatim>\<open>FileNotFoundError\<close> when no \<^verbatim>\<open>instruction.py\<close> is found.
\<close>

theorem compose_fails_without_composables:
  assumes "p \<noteq> []"
  shows "(load_instruction_composables root p v = Inr []
          \<longrightarrow> compose_python_instruction root p v ctx = Inl (FileNotFoundError (NoComposablesFound p)))
       \<and> (\<forall>c cs b. load_instruction_composables root p v = Inr (c # cs) \<and> main_composer (c # cs) = Some b
          \<longrightarrow> compose_python_instruction root p v ctx = call_stripped b ctx)
       \<and> (\<forall>c cs ip. load_instruction_composables root p v = Inr (c # cs) \<and> main_composer (c # cs) = None
             \<and> instruction_py_path root p v = Inr ip \<and> \<not> path_exists root ip
          \<longrightarrow> compose_python_instruction root p v ctx = Inl (FileNotFoundError (InstructionFileNotFound ip)))
       \<and> (\<forall>c cs e. load_instruction_composables root p v = Inr (c # cs) \<and> main_composer (c # cs) = None
             \<and> instruction_py_path root p v = Inl e
          \<longrightarrow> compose_python_instruction root p v ctx = Inl e)"
  using assms by (simp add: compose_python_instruction_def)

theorem compose_fails_without_composables_witness:
  "compose_python_instruction instruction_py_tree ''assistant'' None Map.empty
     = Inl (FileNotFoundError (NoComposablesFound ''assistant''))
   \<and> compose_python_instruction strategy_tree ''assistant'' (Some ''v2'') Map.empty = Inr ''composed''
   \<and> compose_python_instruction helper_only_tree ''assistant'' (Some ''v1'') Map.empty
     = Inl (FileNotFoundError (InstructionFileNotFound [''assistant'', ''v1'', ''instruction.py'']))"
proof -
  have ne: "''assistant'' \<noteq> []" by simp
  have 1: "compose_python_instruction instruction_py_tree ''assistant'' None Map.empty
     = Inl (FileNotFoundError (NoComposablesFound ''assistant''))"
    using compose_fails_without_composables[OF ne, of instruction_py_tree None Map.empty]
      instruction_py_tree_composables by blast
  obtain c b where c: "load_instruction_composables strategy_tree ''assistant'' (Some ''v2'') = Inr [c]"
    "main_composer [c] = Some b" "call_stripped b Map.empty = Inr ''composed''"
    using strategy_composables by blast
  have 2: "compose_python_instruction strategy_tree ''assistant'' (Some ''v2'') Map.empty = Inr ''composed''"
    using compose_fails_without_composables[OF ne, of strategy_tree "Some ''v2''" Map.empty] c
    by metis
  obtain h where h: "load_instruction_composables helper_only_tree ''assistant'' (Some ''v1'') = Inr [h]"
    "main_composer [h] = None"
    using helper_only_composables by blast
  have 3: "compose_python_instruction helper_only_tree ''assistant'' (Some ''v1'') Map.empty
     = Inl (FileNotFoundError (InstructionFileNotFound [''assistant'', ''v1'', ''instruction.py'']))"
    using compose_fails_without_composables[OF ne, of helper_only_tree "Some ''v1''" Map.empty]
      h helper_only_instruction_py by blast
  show ?thesis using 1 2 3 by simp
qed

text \<open>
  C2. The claim: when the resolved \<^verbatim>\<open>instruction.py\<close> exists, the fallback of
  \<^verbatim>\<open>compose_python_instruction\<close> loads it and returns its \<^verbatim>\<open>INSTRUCTION\<close> constant
  trimmed, or calls its \<^verbatim>\<open>compose_instruction\<close> with the context keywords. The code does
  neither: with composables that hold no composer and an \<^verbatim>\<open>instruction.py\<close> in place, the
  fallback stops at line 313 with \<^verbatim>\<open>NameError\<close>, for a constant (version \<^verbatim>\<open>v1\<close>) and for
  a callable (version \<^verbatim>\<open>v2\<close>) alike.
\<close>

theorem instruction_py_fallback_raises_name_error:
  "compose_python_instruction fallback_tree ''assistant'' (Some ''v1'') Map.empty
     = Inl (NameError ''importlib'')
   \<and> compose_python_instruction fallback_tree ''assistant'' (Some ''v2'') [''name'' \<mapsto> PyStr ''Ann'']
     = Inl (NameError ''importlib'')"
proof -
  obtain c where c: "load_instruction_composables fallback_tree ''assistant'' (Some ''v1'') = Inr [c]"
    "main_composer [c] = None" using fallback_composables(1) by blast
  obtain d where d: "load_instruction_composables fallback_tree ''assistant'' (Some ''v2'') = Inr [d]"
    "main_composer [d] = None" using fallback_composables(2) by blast
  show ?thesis
    by (simp add: compose_python_instruction_def c d fallback_instruction_py)
qed

text \<open>
  C3. Strategy selection is a fixed priority order over the resolved base directory \<open>b\<close>:
  a template artifact (\<^verbatim>\<open>instruction.j2\<close>) dispatches to template rendering whatever else
  the directory holds; otherwise an instruction-function or composables artifact dispatches
  to composition; otherwise a static document dispatches to the static loader; otherwise
  the call fails with \<^verbatim>\<open>FileNotFoundError\<close> naming \<open>b\<close>.
\<close>

theorem render_instruction_strategy_priority:
  assumes "base_path root p v = Inr b"
  shows "(path_exists root (b @ [''instruction.j2''])
          \<longrightarrow> render_instruction root p v ctx = render_template_instruction root p v ctx)
       \<and> (\<not> path_exists root (b @ [''instruction.j2''])
            \<and> (path_exists root (b @ [''instruction.py'']) \<or> path_exists root (b @ [''composables.py'']))
          \<longrightarrow> render_instruction root p v ctx = compose_python_instruction root p v ctx)
       \<and> (\<not> path_exists root (b @ [''instruction.j2'']) \<and> \<not> path_exists root (b @ [''instruction.py''])
            \<and> \<not> path_exists root (b @ [''composables.py'']) \<and> path_exists root (b @ [''instruction.md''])
          \<longrightarrow> render_instruction root p v ctx = compose_markdown_instruction root p v ctx)
       \<and> (\<not> path_exists root (b @ [''instruction.j2'']) \<and> \<not> path_exists root (b @ [''instruction.py''])
            \<and> \<not> path_exists root (b @ [''composables.py'']) \<and> \<not> path_exists root (b @ [''instruction.md''])
          \<longrightarrow> render_instruction root p v ctx = Inl (FileNotFoundError (NoValidInstructionFoundIn b)))"
  using assms by (simp add: render_instruction_def)

theorem render_instruction_strategy_priority_witness:
  "render_instruction strategy_tree ''assistant'' (Some ''v1'') Map.empty = Inr ''Hi default''
   \<and> render_instruction strategy_tree ''assistant'' (Some ''v2'') Map.empty = Inr ''composed''
   \<and> render_instruction strategy_tree ''assistant'' (Some ''v3'') Map.empty = Inr ''Static text''
   \<and> render_instruction strategy_tree ''assistant'' (Some ''v4'') Map.empty
       = Inl (FileNotFoundError (NoValidInstructionFoundIn [''assistant'', ''v4'']))"
proof -
  have e1: "path_exists strategy_tree ([''assistant'', ''v1''] @ [''instruction.j2''])"
    and e1c: "path_exists strategy_tree ([''assistant'', ''v1''] @ [''composables.py''])"
    and e1m: "path_exists strategy_tree ([''assistant'', ''v1''] @ [''instruction.md''])"
    by (simp_all add: path_exists_def strategy_tree_def)
  have e2: "\<not> path_exists strategy_tree ([''assistant'', ''v2''] @ [''instruction.j2''])"
       "path_exists strategy_tree ([''assistant'', ''v2''] @ [''composables.py''])"
       "path_exists strategy_tree ([''assistant'', ''v2''] @ [''instruction.md''])"
    by (simp_all add: path_exists_def strategy_tree_def)
  have e3: "\<not> path_exists strategy_tree ([''assistant'', ''v3''] @ [''instruction.j2''])"
       "\<not> path_exists strategy_tree ([''assistant'', ''v3''] @ [''instruction.py''])"
       "\<not> path_exists strategy_tree ([''assistant'', ''v3''] @ [''composables.py''])"
       "path_exists strategy_tree ([''assistant'', ''v3''] @ [''instruction.md''])"
    by (simp_all add: path_exists_def strategy_tree_def)
  have e4: "\<not> path_exists strategy_tree ([''assistant'', ''v4''] @ [''instruction.j2''])"
       "\<not> path_exists strategy_tree ([''assistant'', ''v4''] @ [''instruction.py''])"
       "\<not> path_exists strategy_tree ([''assistant'', ''v4''] @ [''composables.py''])"
       "\<not> path_exists strategy_tree ([''assistant'', ''v4''] @ [''instruction.md''])"
    by (simp_all add: path_exists_def strategy_tree_def)
  have 1: "render_instruction strategy_tree ''assistant'' (Some ''v1'') Map.empty
      = render_template_instruction strategy_tree ''assistant'' (Some ''v1'') Map.empty"
    using render_instruction_strategy_priority[OF strategy_base(1)] e1 by blast
  have 2: "render_instruction strategy_tree ''assistant'' (Some ''v2'') Map.empty
      = compose_python_instruction strategy_tree ''assistant'' (Some ''v2'') Map.empty"
    using render_instruction_strategy_priority[OF strategy_base(2)] e2 by blast
  have 3: "render_instruction strategy_tree ''assistant'' (Some ''v3'') Map.empty
      = compose_markdown_instruction strategy_tree ''assistant'' (Some ''v3'') Map.empty"
    using render_instruction_strategy_priority[OF strategy_base(3)] e3 by blast
  have 4: "render_instruction strategy_tree ''assistant'' (Some ''v4'') Map.empty
      = Inl (FileNotFoundError (NoValidInstructionFoundIn [''assistant'', ''v4'']))"
    using render_instruction_strategy_priority[OF strategy_base(4)] e4 by blast
  show ?thesis using 1 2 3 4 by (simp add: strategy_template strategy_compose strategy_markdown)
qed

text \<open>
  C4. Strict undefined variables: when the template that \<^verbatim>\<open>render_template_instruction\<close>
  resolves references a variable \<open>x\<close> that neither the instruction-local values nor the
  caller's keywords bind, the call raises \<^verbatim>\<open>UndefinedError\<close> for a variable the merged
  context lacks; it returns no output, so nothing is substituted for the missing variable.
  The template service is the one modelled from the specification.
\<close>

theorem template_undefined_variable_raises:
  assumes "p \<noteq> []"
    and "template_path root p v = Inr tp"
    and "get_template root tp = Inr t"
    and "load_instruction_variables root p v = Inr vars"
    and "Var x \<in> set t"
    and "map_of vars x = None" and "ctx x = None"
  shows "\<exists>y. render_template_instruction root p v ctx = Inl (UndefinedError y)
           \<and> Var y \<in> set t \<and> map_of vars y = None \<and> ctx y = None"
proof -
  have "merged_context vars ctx x = None" using assms(6,7) by (simp add: merged_context_lookup)
  from render_segments_undefined[of x t "merged_context vars ctx", OF assms(5) this] obtain y where y:
    "render_segments (merged_context vars ctx) t = Inl (UndefinedError y)"
    "Var y \<in> set t" "merged_context vars ctx y = None" by blast
  have "map_of vars y = None \<and> ctx y = None"
    using y(3) by (auto simp: merged_context_lookup split: option.splits)
  moreover have "render_template_instruction root p v ctx = Inl (UndefinedError y)"
    using assms(1-4) y(1) by (simp add: render_template_instruction_def)
  ultimately show ?thesis using y(2) by blast
qed

theorem template_undefined_variable_raises_witness:
  "render_template_instruction greeter_tree ''greeter'' (Some ''v1'') Map.empty
     = Inl (UndefinedError ''SENDER'')"
proof -
  have ne: "''greeter'' \<noteq> []" by simp
  have h: "Var ''SENDER'' \<in> set [Lit ''Hi '', Var ''NAME'', Lit '' from '', Var ''SENDER'']"
    "map_of [(''NAME'', Value (PyStr ''a''))] ''SENDER'' = None" "Map.empty ''SENDER'' = None"
    by simp_all
  from template_undefined_variable_raises[OF ne greeter_template_path greeter_template
          greeter_values h]
  obtain y where y: "render_template_instruction greeter_tree ''greeter'' (Some ''v1'') Map.empty = Inl (UndefinedError y)"
    "Var y \<in> set [Lit ''Hi '', Var ''NAME'', Lit '' from '', Var ''SENDER'']"
    "map_of [(''NAME'', Value (PyStr ''a''))] y = None" by blast
  from y(2,3) have "y = ''SENDER''" by (auto split: if_splits)
  then show ?thesis using y(1) by simp
qed

text \<open>
  C5. Context merging is right-biased and replaces whole keys: a name the caller supplies
  is bound to the caller's value in the merged context, a name the caller does not supply
  keeps its instruction-local value, the template is rendered in exactly that context, and
  the rendering does not depend on the instruction-local values of the names the caller
  supplies.
\<close>

theorem caller_context_overrides_local_values:
  assumes "p \<noteq> []"
    and "template_path root p v = Inr tp"
    and "get_template root tp = Inr t"
    and "load_instruction_variables root p v = Inr vars"
  shows "(\<forall>x b. ctx x = Some b \<longrightarrow> merged_context vars ctx x = Some (Value b))
       \<and> (\<forall>x. ctx x = None \<longrightarrow> merged_context vars ctx x = map_of vars x)
       \<and> render_template_instruction root p v ctx
           = (case render_segments (\<lambda>x. case ctx x of Some b \<Rightarrow> Some (Value b) | None \<Rightarrow> map_of vars x) t of
                Inl e \<Rightarrow> Inl e | Inr out \<Rightarrow> Inr (strip out))
       \<and> (\<forall>vars'. (\<forall>x. ctx x = None \<longrightarrow> map_of vars' x = map_of vars x)
             \<longrightarrow> render_segments (merged_context vars' ctx) t = render_segments (merged_context vars ctx) t)"
proof (intro conjI allI impI)
  fix x b
  assume "ctx x = Some b"
  then show "merged_context vars ctx x = Some (Value b)" by (simp add: merged_context_lookup)
next
  fix x
  assume "ctx x = None"
  then show "merged_context vars ctx x = map_of vars x" by (simp add: merged_context_lookup)
next
  have m: "merged_context vars ctx = (\<lambda>x. case ctx x of Some b \<Rightarrow> Some (Value b) | None \<Rightarrow> map_of vars x)"
    by (rule ext) (rule merged_context_lookup)
  have "render_template_instruction root p v ctx
      = (case render_segments (merged_context vars ctx) t of Inl e \<Rightarrow> Inl e | Inr out \<Rightarrow> Inr (strip out))"
    using assms by (simp add: render_template_instruction_def)
  then show "render_template_instruction root p v ctx
           = (case render_segments (\<lambda>x. case ctx x of Some b \<Rightarrow> Some (Value b) | None \<Rightarrow> map_of vars x) t of
                Inl e \<Rightarrow> Inl e | Inr out \<Rightarrow> Inr (strip out))"
    unfolding m .
next
  fix vars'
  assume a: "\<forall>x. ctx x = None \<longrightarrow> map_of vars' x = map_of vars x"
  have "merged_context vars' ctx x = merged_context vars ctx x" for x
    using a by (cases "ctx x") (simp_all add: merged_context_lookup)
  then have "merged_context vars' ctx = merged_context vars ctx" by (rule ext)
  then show "render_segments (merged_context vars' ctx) t = render_segments (merged_context vars ctx) t"
    by simp
qed

theorem caller_context_overrides_local_values_witness:
  "render_template_instruction greeter_tree ''greeter'' (Some ''v1'')
     [''NAME'' \<mapsto> PyStr ''b'', ''SENDER'' \<mapsto> PyStr ''s''] = Inr ''Hi b from s''
   \<and> merged_context [(''NAME'', Value (PyStr ''a''))] [''NAME'' \<mapsto> PyStr ''b'', ''SENDER'' \<mapsto> PyStr ''s''] ''NAME''
     = Some (Value (PyStr ''b''))"
proof -
  let ?ctx = "[''NAME'' \<mapsto> PyStr ''b'', ''SENDER'' \<mapsto> PyStr ''s'']"
  have ne: "''greeter'' \<noteq> []" by simp
  note t = caller_context_overrides_local_values[OF ne greeter_template_path greeter_template
      greeter_values, of ?ctx]
  have c: "?ctx ''NAME'' = Some (PyStr ''b'')" by simp
  have 1: "merged_context [(''NAME'', Value (PyStr ''a''))] ?ctx ''NAME'' = Some (Value (PyStr ''b''))"
    using t[THEN conjunct1] c by blast
  have 2: "render_template_instruction greeter_tree ''greeter'' (Some ''v1'') ?ctx
     = (case render_segments (\<lambda>x. case ?ctx x of
           Some b \<Rightarrow> Some (Value b) | None \<Rightarrow> map_of [(''NAME'', Value (PyStr ''a''))] x)
         [Lit ''Hi '', Var ''NAME'', Lit '' from '', Var ''SENDER''] of
                Inl e \<Rightarrow> Inl e | Inr out \<Rightarrow> Inr (strip out))"
    by (rule t[THEN conjunct2, THEN conjunct2, THEN conjunct1])
  have 3: "render_segments (\<lambda>x. case ?ctx x of
           Some b \<Rightarrow> Some (Value b) | None \<Rightarrow> map_of [(''NAME'', Value (PyStr ''a''))] x)
         [Lit ''Hi '', Var ''NAME'', Lit '' from '', Var ''SENDER''] = Inr ''Hi b from s''"
    by simp
  have 4: "strip ''Hi b from s'' = ''Hi b from s''"
    by (simp add: strip_def char_defs)
  show ?thesis using 1 2 3 4 by simp
qed

text \<open>
  C6. With \<open>version\<close> omitted, \<^verbatim>\<open>render_template_instruction\<close> searches the version
  directories from the highest number downward and uses the first that contains a template
  artifact: the version directory \<open>n\<close> that holds \<^verbatim>\<open>instruction.j2\<close> and whose number
  exceeds that of every other version directory holding one is the one rendered, whether
  or not directories without a template carry higher numbers. With no version directory,
  or none that contains a template artifact, the call fails with \<^verbatim>\<open>FileNotFoundError\<close>.
  The version directories are those the listing yields, each named \<open>v\<close> plus an integer.
\<close>

theorem template_search_highest_version_with_template:
  assumes "given v = None" and "p \<noteq> []"
    and "version_dirs root (path_parts p) = Inr ns"
    and "\<forall>m\<in>set ns. version_key m \<noteq> None"
  shows "(n \<in> set ns \<and> version_key n = Some k
            \<and> path_exists root (path_parts p @ [n, ''instruction.j2''])
            \<and> (\<forall>m\<in>set ns. m \<noteq> n \<and> path_exists root (path_parts p @ [m, ''instruction.j2''])
                  \<longrightarrow> (\<exists>j. version_key m = Some j \<and> j < k))
          \<longrightarrow> template_path root p v = Inr (path_parts p @ [n, ''instruction.j2''])
            \<and> render_template_instruction root p v ctx
                = (case get_template root (path_parts p @ [n, ''instruction.j2'']) of
                     Inl e \<Rightarrow> Inl e
                   | Inr t \<Rightarrow> (case load_instruction_variables root p v of
                       Inl e \<Rightarrow> Inl e
                     | Inr vars \<Rightarrow> (case render_segments (merged_context vars ctx) t of
                         Inl e \<Rightarrow> Inl e
                       | Inr out \<Rightarrow> Inr (strip out)))))
       \<and> ((\<forall>m\<in>set ns. \<not> path_exists root (path_parts p @ [m, ''instruction.j2'']))
          \<longrightarrow> render_template_instruction root p v ctx
                = Inl (FileNotFoundError (NoTemplateInAnyVersion p)))"
proof -
  from highest_first_sorted[OF assms(4)] obtain hs where hs:
    "highest_first ns = Inr hs" "set hs = set ns"
    "sorted (map (\<lambda>n. - the (version_key n)) hs)" by blast
  have ex: "path_exists root (path_parts p)" using assms(3) by (rule version_dirs_exists)
  {
    assume a: "n \<in> set ns \<and> version_key n = Some k
            \<and> path_exists root (path_parts p @ [n, ''instruction.j2''])
            \<and> (\<forall>m\<in>set ns. m \<noteq> n \<and> path_exists root (path_parts p @ [m, ''instruction.j2''])
                  \<longrightarrow> (\<exists>j. version_key m = Some j \<and> j < k))"
    have "first_with root (path_parts p) ''instruction.j2'' hs = Some n"
      using hs(2,3) a by (intro first_with_highest[where k = k]) auto
    then have tp: "template_path root p v = Inr (path_parts p @ [n, ''instruction.j2''])"
      using assms(1,3) ex hs(1) by (simp add: template_path_def)
    then have "template_path root p v = Inr (path_parts p @ [n, ''instruction.j2''])
            \<and> render_template_instruction root p v ctx
                = (case get_template root (path_parts p @ [n, ''instruction.j2'']) of
                     Inl e \<Rightarrow> Inl e
                   | Inr t \<Rightarrow> (case load_instruction_variables root p v of
                       Inl e \<Rightarrow> Inl e
                     | Inr vars \<Rightarrow> (case render_segments (merged_context vars ctx) t of
                         Inl e \<Rightarrow> Inl e
                       | Inr out \<Rightarrow> Inr (strip out))))"
      using assms(2) by (simp add: render_template_instruction_def)
  }
  moreover
  {
    assume "\<forall>m\<in>set ns. \<not> path_exists root (path_parts p @ [m, ''instruction.j2''])"
    then have "first_with root (path_parts p) ''instruction.j2'' hs = None"
      using hs(2) by (simp add: first_with_None)
    then have "template_path root p v = Inl (FileNotFoundError (NoTemplateInAnyVersion p))"
      using assms(1,3) ex hs(1) by (simp add: template_path_def)
    then have "render_template_instruction root p v ctx
                = Inl (FileNotFoundError (NoTemplateInAnyVersion p))"
      using assms(2) by (simp add: render_template_instruction_def)
  }
  ultimately show ?thesis by blast
qed

theorem template_search_highest_version_with_template_witness:
  "template_path template_versions_tree ''assistant'' None
     = Inr [''assistant'', ''v2'', ''instruction.j2'']
   \<and> render_template_instruction template_versions_tree ''assistant'' None Map.empty = Inr ''Second''
   \<and> render_template_instruction numbered_tree ''agents/assistant'' None Map.empty
     = Inl (FileNotFoundError (NoTemplateInAnyVersion ''agents/assistant''))"
proof -
  have g: "given None = None" by (simp add: given_def)
  have ne: "''assistant'' \<noteq> []" "''agents/assistant'' \<noteq> []" by simp_all
  have keys: "\<forall>m\<in>set [''v1'', ''v3'', ''v2'']. version_key m \<noteq> None"
    by (simp add: key_v1 key_v2 key_v3)
  have keys': "\<forall>m\<in>set [''v2'', ''v10'', ''v9'']. version_key m \<noteq> None"
    by (simp add: key_v2 key_v9 key_v10)
  have h: "''v2'' \<in> set [''v1'', ''v3'', ''v2''] \<and> version_key ''v2'' = Some 2
      \<and> path_exists template_versions_tree (path_parts ''assistant'' @ [''v2'', ''instruction.j2''])
      \<and> (\<forall>m\<in>set [''v1'', ''v3'', ''v2''].
            m \<noteq> ''v2'' \<and> path_exists template_versions_tree (path_parts ''assistant'' @ [m, ''instruction.j2''])
            \<longrightarrow> (\<exists>j. version_key m = Some j \<and> j < 2))"
    by (simp add: key_v1 key_v2 key_v3 parts_assistant path_exists_def template_versions_tree_def)
  have h': "\<forall>m\<in>set [''v2'', ''v10'', ''v9''].
      \<not> path_exists numbered_tree (path_parts ''agents/assistant'' @ [m, ''instruction.j2''])"
    by (simp add: parts_agents_assistant path_exists_def numbered_tree_def)
  note t = template_search_highest_version_with_template[OF g ne(1) template_versions_dirs keys,
      of "''v2''" 2 Map.empty]
  note t' = template_search_highest_version_with_template[OF g ne(2) numbered_dirs keys',
      of _ _ Map.empty]
  have 1: "template_path template_versions_tree ''assistant'' None
      = Inr (path_parts ''assistant'' @ [''v2'', ''instruction.j2''])"
    using t h by blast
  have 2: "render_template_instruction template_versions_tree ''assistant'' None Map.empty
      = (case get_template template_versions_tree (path_parts ''assistant'' @ [''v2'', ''instruction.j2'']) of
           Inl e \<Rightarrow> Inl e
         | Inr t \<Rightarrow> (case load_instruction_variables template_versions_tree ''assistant'' None of
             Inl e \<Rightarrow> Inl e
           | Inr vars \<Rightarrow> (case render_segments (merged_context vars Map.empty) t of
               Inl e \<Rightarrow> Inl e
             | Inr out \<Rightarrow> Inr (strip out))))"
    using t h by blast
  have gt: "get_template template_versions_tree (path_parts ''assistant'' @ [''v2'', ''instruction.j2''])
      = Inr [Lit '' Second '']"
    by (simp add: get_template_def parts_assistant template_versions_tree_def jinja_def)
  have st: "strip '' Second '' = ''Second''" by (simp add: strip_def char_defs)
  have 3: "render_template_instruction template_versions_tree ''assistant'' None Map.empty = Inr ''Second''"
    unfolding 2 gt template_versions_values by (simp add: st)
  have 4: "render_template_instruction numbered_tree ''agents/assistant'' None Map.empty
     = Inl (FileNotFoundError (NoTemplateInAnyVersion ''agents/assistant''))"
    using t' h' by blast
  show ?thesis using 1 3 4 by (simp add: parts_assistant)
qed

text \<open>
  C7. With \<open>version\<close> omitted, \<^verbatim>\<open>render_instruction\<close> resolves the base directory to the
  version directory of maximal parsed integer suffix, whatever the order in which the
  directory listing enumerates the children: if \<open>n\<close> is a child directory named \<open>v\<close> plus
  an integer \<open>k\<close> and every other child directory whose name starts with \<open>v\<close> carries a
  smaller integer, then every tree whose instruction directory lists the same children, in
  any order, resolves to \<open>n\<close>. An instruction directory without version directories, and a
  missing instruction directory, fail with \<^verbatim>\<open>FileNotFoundError\<close>.
\<close>

theorem render_instruction_latest_is_numeric_max:
  assumes "given v = None"
  shows "(walk root (path_parts p) = Some (Dir kids) \<and> distinct (map fst kids)
            \<and> (n, Dir c) \<in> set kids \<and> startswith n ''v'' \<and> version_key n = Some k
            \<and> (\<forall>(m, d)\<in>set kids. m \<noteq> n \<and> startswith m ''v'' \<and> (\<exists>c'. d = Dir c')
                  \<longrightarrow> (\<exists>j. version_key m = Some j \<and> j < k))
          \<longrightarrow> (\<forall>root' kids'. walk root' (path_parts p) = Some (Dir kids') \<and> mset kids' = mset kids
                  \<longrightarrow> base_path root' p v = Inr (path_parts p @ [n])))
       \<and> (walk root (path_parts p) = Some (Dir kids)
            \<and> (\<forall>(m, d)\<in>set kids. \<not> (startswith m ''v'' \<and> (\<exists>c'. d = Dir c')))
          \<longrightarrow> render_instruction root p v ctx = Inl (FileNotFoundError (NoVersionDirectoriesFound p)))
       \<and> (walk root (path_parts p) = None
          \<longrightarrow> render_instruction root p v ctx = Inl (FileNotFoundError (InstructionDirectoryNotFound p)))"
proof (intro conjI impI allI)
  fix root' kids'
  assume a: "walk root (path_parts p) = Some (Dir kids) \<and> distinct (map fst kids)
            \<and> (n, Dir c) \<in> set kids \<and> startswith n ''v'' \<and> version_key n = Some k
            \<and> (\<forall>(m, d)\<in>set kids. m \<noteq> n \<and> startswith m ''v'' \<and> (\<exists>c'. d = Dir c')
                  \<longrightarrow> (\<exists>j. version_key m = Some j \<and> j < k))"
    and b: "walk root' (path_parts p) = Some (Dir kids') \<and> mset kids' = mset kids"
  have set_eq: "set kids' = set kids" using b by (metis set_mset_mset)
  have "mset (map fst kids') = mset (map fst kids)" using b by simp
  then have dist: "distinct (map fst kids')" using a by (metis mset_eq_imp_distinct_iff)
  from version_dirs_set[OF _ dist] b obtain ns where ns:
    "version_dirs root' (path_parts p) = Inr ns"
    "set ns = {n. startswith n ''v'' \<and> (\<exists>c. (n, Dir c) \<in> set kids')}" by blast
  have n_in: "n \<in> set ns" using a ns(2) set_eq by auto
  have others: "\<forall>m\<in>set ns. m \<noteq> n \<longrightarrow> (\<exists>j. version_key m = Some j \<and> j < k)"
    using a ns(2) set_eq by fastforce
  have "latest_version ns = Inr n"
    using a others n_in by (intro latest_version_unique_max[where k = k]) auto
  moreover have "path_exists root' (path_parts p)" using b by (simp add: path_exists_def)
  moreover obtain x xs where "ns = x # xs" using n_in by (cases ns) auto
  ultimately show "base_path root' p v = Inr (path_parts p @ [n])"
    using assms ns(1) by (simp add: base_path_def)
next
  assume a: "walk root (path_parts p) = Some (Dir kids)
            \<and> (\<forall>(m, d)\<in>set kids. \<not> (startswith m ''v'' \<and> (\<exists>c'. d = Dir c')))"
  then have "version_dirs root (path_parts p) = Inr []" by (intro version_dirs_none) auto
  moreover have "path_exists root (path_parts p)" using a by (simp add: path_exists_def)
  ultimately have "base_path root p v = Inl (FileNotFoundError (NoVersionDirectoriesFound p))"
    using assms by (simp add: base_path_def)
  then show "render_instruction root p v ctx = Inl (FileNotFoundError (NoVersionDirectoriesFound p))"
    by (simp add: render_instruction_def)
next
  assume "walk root (path_parts p) = None"
  then have "base_path root p v = Inl (FileNotFoundError (InstructionDirectoryNotFound p))"
    using assms by (simp add: base_path_def path_exists_def)
  then show "render_instruction root p v ctx = Inl (FileNotFoundError (InstructionDirectoryNotFound p))"
    by (simp add: render_instruction_def)
qed

theorem render_instruction_latest_is_numeric_max_witness:
  "base_path numbered_tree ''agents/assistant'' None = Inr [''agents'', ''assistant'', ''v10'']
   \<and> base_path numbered_tree_relisted ''agents/assistant'' None = Inr [''agents'', ''assistant'', ''v10'']
   \<and> render_instruction numbered_tree ''agents/assistant'' None Map.empty = Inr ''Ten''
   \<and> render_instruction numbered_tree ''agents/assistant/v2'' None Map.empty
       = Inl (FileNotFoundError (NoVersionDirectoriesFound ''agents/assistant/v2''))
   \<and> render_instruction numbered_tree ''agents/helper'' None Map.empty
       = Inl (FileNotFoundError (InstructionDirectoryNotFound ''agents/helper''))"
proof -
  let ?kids = "[(''v2'', Dir [(''instruction.md'', markdown ''Two'')]),
      (''v10'', Dir [(''instruction.md'', markdown ''Ten'')]),
      (''notes.txt'', markdown ''v11''),
      (''v9'', Dir [(''instruction.md'', markdown ''Nine'')])]"
  let ?kids' = "[(''v10'', Dir [(''instruction.md'', markdown ''Ten'')]),
      (''v9'', Dir [(''instruction.md'', markdown ''Nine'')]),
      (''v2'', Dir [(''instruction.md'', markdown ''Two'')]),
      (''notes.txt'', markdown ''v11'')]"
  have g: "given None = None" by (simp add: given_def)
  have w: "walk numbered_tree (path_parts ''agents/assistant'') = Some (Dir ?kids)"
    by (simp add: parts_agents_assistant numbered_tree_def)
  have w': "walk numbered_tree_relisted (path_parts ''agents/assistant'') = Some (Dir ?kids')"
    by (simp add: parts_agents_assistant numbered_tree_relisted_def)
  have hyp: "distinct (map fst ?kids)
      \<and> (''v10'', Dir [(''instruction.md'', markdown ''Ten'')]) \<in> set ?kids
      \<and> startswith ''v10'' ''v'' \<and> version_key ''v10'' = Some 10
      \<and> (\<forall>(m, d)\<in>set ?kids. m \<noteq> ''v10'' \<and> startswith m ''v'' \<and> (\<exists>c'. d = Dir c')
            \<longrightarrow> (\<exists>j. version_key m = Some j \<and> j < 10))"
    by (simp add: startswith_def key_v2 key_v9 key_v10 markdown_def)
  have m: "mset ?kids' = mset ?kids" by simp
  have w2: "walk numbered_tree (path_parts ''agents/assistant/v2'')
      = Some (Dir [(''instruction.md'', markdown ''Two'')])"
    by (simp add: path_parts_def numbered_tree_def)
  have nov: "\<forall>(m, d)\<in>set [(''instruction.md'', markdown ''Two'')]. \<not> (startswith m ''v'' \<and> (\<exists>c'. d = Dir c'))"
    by (simp add: startswith_def)
  have w3: "walk numbered_tree (path_parts ''agents/helper'') = None"
    by (simp add: path_parts_def numbered_tree_def)
  note t = render_instruction_latest_is_numeric_max[OF g]
  have 1: "base_path numbered_tree ''agents/assistant'' None = Inr (path_parts ''agents/assistant'' @ [''v10''])"
    using t[of numbered_tree "''agents/assistant''" ?kids "''v10''" _ 10] w hyp by blast
  have 2: "base_path numbered_tree_relisted ''agents/assistant'' None = Inr (path_parts ''agents/assistant'' @ [''v10''])"
    using t[of numbered_tree "''agents/assistant''" ?kids "''v10''" _ 10] w w' hyp m by blast
  have 3: "render_instruction numbered_tree ''agents/assistant/v2'' None Map.empty
       = Inl (FileNotFoundError (NoVersionDirectoriesFound ''agents/assistant/v2''))"
    using t[of numbered_tree "''agents/assistant/v2''" "[(''instruction.md'', markdown ''Two'')]"] w2 nov by blast
  have 4: "render_instruction numbered_tree ''agents/helper'' None Map.empty
       = Inl (FileNotFoundError (InstructionDirectoryNotFound ''agents/helper''))"
    using t[of numbered_tree "''agents/helper''"] w3 by blast
  have 5: "render_instruction numbered_tree ''agents/assistant'' None Map.empty = Inr ''Ten''"
    by (simp only: render_instruction_def 1 sum.case numbered_artifacts if_True if_False simp_thms
        numbered_markdown)
  show ?thesis using 1 2 3 4 5 by (simp add: parts_agents_assistant)
qed

text \<open>
  C8, as stated, fails: the claim has version selection consider only children named
  \<open>v\<close> plus digits and ignore a child directory such as \<^verbatim>\<open>venv\<close>. The source filters by
  \<^verbatim>\<open>d.is_dir() and d.name.startswith('v')\<close> and then applies \<^verbatim>\<open>int\<close> to the rest of every
  such name, so with a \<^verbatim>\<open>venv\<close> directory beside \<^verbatim>\<open>v1\<close> both the dispatcher and the
  value loader raise \<^verbatim>\<open>ValueError\<close>.
\<close>

theorem venv_directory_breaks_resolution:
  "render_instruction venv_tree ''assistant'' None Map.empty
     = Inl (ValueError (InvalidIntLiteral ''env''))
   \<and> load_instruction_variables venv_tree ''assistant'' None
     = Inl (ValueError (InvalidIntLiteral ''env''))"
  by (simp add: render_instruction_def venv_base load_instruction_variables_def venv_variables_dir)

text \<open>
  C8, amended. With \<open>version\<close> omitted, version selection considers exactly the child
  directories whose names start with \<open>v\<close>, whatever follows the \<open>v\<close>; plain files and
  children with other names are ignored. When there is such a directory and the rest of
  every such name parses as an integer, resolution completes without error, in the
  dispatcher and in the value loader, and selects a directory of maximal parsed suffix.
\<close>

theorem version_selection_considers_v_prefixed_directories:
  assumes "given v = None" and "walk root (path_parts p) = Some (Dir kids)"
  shows "(\<exists>ns. version_dirs root (path_parts p) = Inr ns
            \<and> (\<forall>m. m \<in> set ns \<longleftrightarrow> startswith m ''v'' \<and> (\<exists>c. map_of kids m = Some (Dir c))))
       \<and> (\<forall>ns. version_dirs root (path_parts p) = Inr ns \<and> ns \<noteq> []
               \<and> (\<forall>m\<in>set ns. version_key m \<noteq> None)
            \<longrightarrow> (\<exists>m\<in>set ns. base_path root p v = Inr (path_parts p @ [m])
                   \<and> variables_version_dir root p v = Inr (Some (path_parts p @ [m]))
                   \<and> (\<forall>n\<in>set ns. the (version_key n) \<le> the (version_key m))))"
proof (rule conjI)
  show "\<exists>ns. version_dirs root (path_parts p) = Inr ns
            \<and> (\<forall>m. m \<in> set ns \<longleftrightarrow> startswith m ''v'' \<and> (\<exists>c. map_of kids m = Some (Dir c)))"
    using assms(2) by (rule version_dirs_members)
next
  show "\<forall>ns. version_dirs root (path_parts p) = Inr ns \<and> ns \<noteq> []
               \<and> (\<forall>m\<in>set ns. version_key m \<noteq> None)
            \<longrightarrow> (\<exists>m\<in>set ns. base_path root p v = Inr (path_parts p @ [m])
                   \<and> variables_version_dir root p v = Inr (Some (path_parts p @ [m]))
                   \<and> (\<forall>n\<in>set ns. the (version_key n) \<le> the (version_key m)))"
  proof (intro allI impI)
    fix ns
    assume a: "version_dirs root (path_parts p) = Inr ns \<and> ns \<noteq> []
               \<and> (\<forall>m\<in>set ns. version_key m \<noteq> None)"
    then obtain x xs where ns: "ns = x # xs" by (cases ns) auto
    have ex: "path_exists root (path_parts p)" using assms(2) by (simp add: path_exists_def)
    from latest_version_total[of ns] a obtain m where m: "m \<in> set ns" "latest_version ns = Inr m"
      "\<forall>n\<in>set ns. the (version_key n) \<le> the (version_key m)" by blast
    have "base_path root p v = Inr (path_parts p @ [m])"
      using assms(1) a ex m(2) ns by (simp add: base_path_def)
    moreover have "variables_version_dir root p v = Inr (Some (path_parts p @ [m]))"
      using assms(1) a ex m(2) ns by (simp add: variables_version_dir_def)
    ultimately show "\<exists>m\<in>set ns. base_path root p v = Inr (path_parts p @ [m])
                   \<and> variables_version_dir root p v = Inr (Some (path_parts p @ [m]))
                   \<and> (\<forall>n\<in>set ns. the (version_key n) \<le> the (version_key m))"
      using m(1,3) by blast
  qed
qed

theorem version_selection_considers_v_prefixed_directories_witness:
  "base_path mixed_children_tree ''assistant'' None = Inr [''assistant'', ''v2'']
   \<and> variables_version_dir mixed_children_tree ''assistant'' None = Inr (Some [''assistant'', ''v2''])"
proof -
  let ?kids = "[(''docs'', Dir [(''instruction.md'', markdown ''Docs'')]),
      (''v1'', Dir [(''instruction.md'', markdown ''One'')]),
      (''v7'', markdown ''a plain file''),
      (''v2'', Dir [(''instruction.md'', markdown ''Hello'')])]"
  have g: "given None = None" by (simp add: given_def)
  have w: "walk mixed_children_tree (path_parts ''assistant'') = Some (Dir ?kids)"
    by (simp add: parts_assistant mixed_children_tree_def)
  have h: "version_dirs mixed_children_tree (path_parts ''assistant'') = Inr [''v1'', ''v2'']
      \<and> [''v1'', ''v2''] \<noteq> [] \<and> (\<forall>m\<in>set [''v1'', ''v2'']. version_key m \<noteq> None)"
    by (simp add: mixed_dirs key_v1 key_v2)
  from version_selection_considers_v_prefixed_directories[OF g w, THEN conjunct2] h
  obtain m where m: "m \<in> set [''v1'', ''v2'']"
    "base_path mixed_children_tree ''assistant'' None = Inr (path_parts ''assistant'' @ [m])"
    "variables_version_dir mixed_children_tree ''assistant'' None = Inr (Some (path_parts ''assistant'' @ [m]))"
    "\<forall>n\<in>set [''v1'', ''v2'']. the (version_key n) \<le> the (version_key m)" by blast
  have "m = ''v2''" using m(1,4) by (auto simp: key_v1 key_v2)
  then show ?thesis using m(2,3) by (simp add: parts_assistant)
qed

text \<open>
  C9, as stated, fails: the claim has the value loader never propagate an exception, for
  every input and whatever the reason of the failure. The loader resolves the version
  directory outside its \<^verbatim>\<open>try\<close> block (lines 38-48), so with a \<^verbatim>\<open>venv\<close> directory
  beside \<^verbatim>\<open>v1\<close> the \<^verbatim>\<open>ValueError\<close> of \<^verbatim>\<open>int('env')\<close> reaches the caller; and the handler
  of line 76 is \<^verbatim>\<open>except Exception\<close>, so a values artifact that raises \<^verbatim>\<open>SystemExit\<close>
  while it is executed takes the loader down with it.
\<close>

theorem value_loader_propagates_exceptions:
  "load_instruction_variables venv_tree ''assistant'' None
     = Inl (ValueError (InvalidIntLiteral ''env''))
   \<and> values_file exit_tree [''assistant'', ''v1''] = Some [''assistant'', ''v1'', ''values.py'']
   \<and> raised (exec_module exit_tree [''assistant'', ''v1'', ''values.py'']) = Some SystemExit
   \<and> load_instruction_variables exit_tree ''assistant'' (Some ''v1'') = Inl SystemExit"
proof -
  have 1: "load_instruction_variables venv_tree ''assistant'' None
     = Inl (ValueError (InvalidIntLiteral ''env''))"
    by (simp add: load_instruction_variables_def venv_variables_dir)
  have 2: "load_instruction_variables exit_tree ''assistant'' (Some ''v1'') = Inl SystemExit"
    by (simp add: load_instruction_variables_def exit_values_dir exit_values_file
        load_values_from_def exit_values_exec)
  show ?thesis using 1 2 by (simp add: exit_values_file exit_values_exec)
qed

text \<open>
  C9, amended. Once the version directory is resolved, the value loader propagates no
  exception that derives from \<^verbatim>\<open>Exception\<close>: when loading the located values artifact
  \<open>f\<close> fails with such an exception (a syntax error, an exception raised during
  execution), \<^verbatim>\<open>_load_instruction_variables\<close> returns the empty mapping, never the bindings
  made before the failure; when the load succeeds it returns exactly the top-level bindings
  whose names are upper-case and do not start with an underscore. An exception of the load
  that does not derive from \<^verbatim>\<open>Exception\<close> is not caught.
\<close>

theorem value_loader_failure_yields_empty_mapping:
  "(\<forall>r e. variables_version_dir root p v = Inr r \<and> load_instruction_variables root p v = Inl e
        \<longrightarrow> \<not> is_exception e)
   \<and> (\<forall>vd f. variables_version_dir root p v = Inr (Some vd) \<and> values_file root vd = Some f \<longrightarrow>
         (\<forall>e. raised (exec_module root f) = Some e \<and> is_exception e
            \<longrightarrow> load_instruction_variables root p v = Inr [])
       \<and> (\<forall>e. raised (exec_module root f) = Some e \<and> \<not> is_exception e
            \<longrightarrow> load_instruction_variables root p v = Inl e)
       \<and> (raised (exec_module root f) = None \<longrightarrow>
            (\<exists>vars. load_instruction_variables root p v = Inr vars
               \<and> set vars \<subseteq> set (bindings (exec_module root f))
               \<and> (\<forall>n. map_of vars n =
                     (if \<not> startswith n ''_'' \<and> isupper n
                      then map_of (bindings (exec_module root f)) n else None)))))"
proof -
  have located: "load_instruction_variables root p v = load_values_from root f"
    if "variables_version_dir root p v = Inr (Some vd)" and "values_file root vd = Some f" for vd f
    using that by (simp add: load_instruction_variables_def)
  have caught: "load_values_from root f = Inr []"
    if "raised (exec_module root f) = Some e" and "is_exception e" for f e
    using that by (simp add: load_values_from_def)
  have escapes: "load_values_from root f = Inl e"
    if "raised (exec_module root f) = Some e" and "\<not> is_exception e" for f e
    using that by (simp add: load_values_from_def)
  have loaded: "load_values_from root f = Inr (public_constants (bindings (exec_module root f)))"
    if "raised (exec_module root f) = None" for f
    using that by (simp add: load_values_from_def)
  have only_base: "\<not> is_exception e" if "load_values_from root f = Inl e" for f e
    using that by (auto simp: load_values_from_def Let_def split: option.splits if_splits)
  have sub: "set (public_constants xs) \<subseteq> set xs" for xs
    by (auto simp: public_constants_def)
  have look: "map_of (public_constants xs) n =
      (if \<not> startswith n ''_'' \<and> isupper n then map_of xs n else None)" for xs n
    unfolding public_constants_def
    by (rule map_of_filter_fst[where P = "\<lambda>n. \<not> startswith n ''_'' \<and> isupper n"])
  have first: "\<not> is_exception e"
    if "variables_version_dir root p v = Inr r" and "load_instruction_variables root p v = Inl e"
    for r e
  proof (cases r)
    case None
    then show ?thesis using that by (simp add: load_instruction_variables_def)
  next
    case (Some vd)
    show ?thesis
    proof (cases "values_file root vd")
      case None
      then show ?thesis using that Some by (simp add: load_instruction_variables_def)
    next
      case (Some f)
      then have "load_values_from root f = Inl e"
        using that \<open>r = Some vd\<close> by (simp add: load_instruction_variables_def)
      then show ?thesis by (rule only_base)
    qed
  qed
  have second: "(\<forall>e. raised (exec_module root f) = Some e \<and> is_exception e
            \<longrightarrow> load_instruction_variables root p v = Inr [])
       \<and> (\<forall>e. raised (exec_module root f) = Some e \<and> \<not> is_exception e
            \<longrightarrow> load_instruction_variables root p v = Inl e)
       \<and> (raised (exec_module root f) = None \<longrightarrow>
            (\<exists>vars. load_instruction_variables root p v = Inr vars
               \<and> set vars \<subseteq> set (bindings (exec_module root f))
               \<and> (\<forall>n. map_of vars n =
                     (if \<not> startswith n ''_'' \<and> isupper n
                      then map_of (bindings (exec_module root f)) n else None))))"
    if "variables_version_dir root p v = Inr (Some vd)" and "values_file root vd = Some f" for vd f
    using located[OF that] caught[of f] escapes[of f] loaded[of f] sub look by auto
  show ?thesis using first second by blast
qed

theorem value_loader_failure_yields_empty_mapping_witness:
  "load_instruction_variables strategy_tree ''assistant'' (Some ''v4'') = Inr []
   \<and> (\<exists>vars. load_instruction_variables strategy_tree ''assistant'' (Some ''v1'') = Inr vars
        \<and> map_of vars ''NAME'' = Some (Value (PyStr ''default''))
        \<and> map_of vars ''_HIDDEN'' = None \<and> map_of vars ''lower'' = None)
   \<and> load_instruction_variables exit_tree ''assistant'' (Some ''v1'') = Inl SystemExit"
proof -
  note t = value_loader_failure_yields_empty_mapping[of strategy_tree "''assistant''", THEN conjunct2]
  note t4 = t[of "Some ''v4''", rule_format, OF conjI, OF strategy_values_dirs(1) strategy_values_files(1)]
  note t1 = t[of "Some ''v1''", rule_format, OF conjI, OF strategy_values_dirs(2) strategy_values_files(2)]
  note u = value_loader_failure_yields_empty_mapping[of exit_tree "''assistant''" "Some ''v1''",
      THEN conjunct2, rule_format, OF conjI, OF exit_values_dir exit_values_file]
  have r4: "raised (exec_module strategy_tree [''assistant'', ''v4'', ''values.py''])
      = Some (Raised ''ZeroDivisionError'') \<and> is_exception (Raised ''ZeroDivisionError'')"
    by (simp add: strategy_values_exec)
  have r1: "raised (exec_module strategy_tree [''assistant'', ''v1'', ''values.py'']) = None"
    by (simp add: strategy_values_exec)
  have rx: "raised (exec_module exit_tree [''assistant'', ''v1'', ''values.py'']) = Some SystemExit
      \<and> \<not> is_exception SystemExit"
    by (simp add: exit_values_exec)
  have 1: "load_instruction_variables strategy_tree ''assistant'' (Some ''v4'') = Inr []"
    using t4[THEN conjunct1] r4 by blast
  obtain vars where vars: "load_instruction_variables strategy_tree ''assistant'' (Some ''v1'') = Inr vars"
    "\<forall>n. map_of vars n = (if \<not> startswith n ''_'' \<and> isupper n
        then map_of (bindings (exec_module strategy_tree [''assistant'', ''v1'', ''values.py''])) n else None)"
    using t1[THEN conjunct2, THEN conjunct2] r1 by blast
  have "map_of vars ''NAME'' = Some (Value (PyStr ''default''))"
    "map_of vars ''_HIDDEN'' = None" "map_of vars ''lower'' = None"
    by (simp_all add: vars(2) strategy_values_exec startswith_def isupper_def char_defs)
  moreover have "load_instruction_variables exit_tree ''assistant'' (Some ''v1'') = Inl SystemExit"
    using u[THEN conjunct2, THEN conjunct1] rx by blast
  ultimately show ?thesis using 1 vars(1) by blast
qed

text \<open>
  C10. For an instruction path that is a directory without version child directories, the
  value loader (version omitted) probes \<^verbatim>\<open>values.py\<close>, else \<^verbatim>\<open>variables.py\<close>, in the
  instruction directory itself, and \<^verbatim>\<open>_load_instruction_composables\<close> probes
  \<^verbatim>\<open>composables.py\<close> there: neither returns the empty mapping at once.
\<close>

theorem unversioned_directory_is_probed:
  assumes "given v = None"
    and "walk root (path_parts p) = Some (Dir kids)"
    and "\<forall>(m, d)\<in>set kids. \<not> (startswith m ''v'' \<and> (\<exists>c. d = Dir c))"
  shows "variables_version_dir root p v = Inr (Some (path_parts p))
       \<and> load_instruction_variables root p v
           = (if map_of kids ''values.py'' \<noteq> None
              then load_values_from root (path_parts p @ [''values.py''])
              else if map_of kids ''variables.py'' \<noteq> None
              then load_values_from root (path_parts p @ [''variables.py''])
              else Inr [])
       \<and> composables_file root p v = Inr (Some (path_parts p @ [''composables.py'']))
       \<and> load_instruction_composables root p v
           = (if map_of kids ''composables.py'' \<noteq> None
              then load_callables_from root (path_parts p @ [''composables.py''])
              else Inr [])"
proof -
  have nov: "version_dirs root (path_parts p) = Inr []"
    using assms(2,3) by (rule version_dirs_none)
  have ex: "path_exists root (path_parts p)" using assms(2) by (simp add: path_exists_def)
  have child: "path_exists root (path_parts p @ [a]) = (map_of kids a \<noteq> None)" for a
    using assms(2) by (simp add: path_exists_def walk_child split: option.splits)
  have vd: "variables_version_dir root p v = Inr (Some (path_parts p))"
    using assms(1) nov ex by (simp add: variables_version_dir_def)
  have cf: "composables_file root p v = Inr (Some (path_parts p @ [''composables.py'']))"
    using assms(1) nov ex by (simp add: composables_file_def)
  show ?thesis
    using vd cf by (simp add: load_instruction_variables_def load_instruction_composables_def
        values_file_def child)
qed

theorem unversioned_directory_is_probed_witness:
  "load_instruction_variables unversioned_tree ''guardrails'' None
     = Inr [(''GREETING'', Value (PyStr ''hi''))]
   \<and> map (\<lambda>nb. fst nb) (projr (load_instruction_composables unversioned_tree ''guardrails'' None))
     = [''compose_instruction'']"
proof -
  let ?kids = "[(''values.py'', python ''GREETING = 'hi'; note = 'x' ''
         \<lparr>bindings = [(''GREETING'', Value (PyStr ''hi'')), (''note'', Value (PyStr ''x''))],
          raised = None\<rparr>),
      (''composables.py'', python ''def compose_instruction(**kw): return ' composed ' ''
         \<lparr>bindings = [(''compose_instruction'', Callable ''<function compose_instruction>''
             (\<lambda>kw. Inr (PyStr '' composed '')))],
          raised = None\<rparr>),
      (''drafts'', Dir [])]"
  have g: "given None = None" by (simp add: given_def)
  have w: "walk unversioned_tree (path_parts ''guardrails'') = Some (Dir ?kids)"
    by (simp add: parts_guardrails unversioned_tree_def)
  have nov: "\<forall>(m, d)\<in>set ?kids. \<not> (startswith m ''v'' \<and> (\<exists>c. d = Dir c))"
    by (simp add: startswith_def python_def)
  note t = unversioned_directory_is_probed[OF g w nov]
  have lv: "load_values_from unversioned_tree [''guardrails'', ''values.py'']
      = Inr [(''GREETING'', Value (PyStr ''hi''))]"
    by (simp add: load_values_from_def exec_module_def unversioned_tree_def python_def
        public_constants_def startswith_def isupper_def char_defs)
  have lc: "map (\<lambda>nb. fst nb) (projr (load_callables_from unversioned_tree [''guardrails'', ''composables.py'']))
      = [''compose_instruction'']"
    by (simp add: load_callables_from_def exec_module_def unversioned_tree_def python_def
        public_callables_def startswith_def)
  show ?thesis using t lv lc by (simp add: parts_guardrails)
qed

section \<open>Further properties of the renderers\<close>

text \<open>
  With \<open>version\<close> omitted and no instruction directory, \<^verbatim>\<open>compose_markdown_instruction\<close>
  reaches line 370 with \<^verbatim>\<open>instruction_md_path\<close> never assigned: it raises
  \<^verbatim>\<open>UnboundLocalError\<close>, not \<^verbatim>\<open>FileNotFoundError\<close>.
\<close>

theorem markdown_missing_directory_unbound_local:
  assumes "given v = None" and "p \<noteq> []" and "\<not> path_exists root (path_parts p)"
  shows "compose_markdown_instruction root p v ctx = Inl (UnboundLocalError ''instruction_md_path'')"
  using assms by (simp add: compose_markdown_instruction_def markdown_path_def)

theorem markdown_missing_directory_unbound_local_witness:
  "compose_markdown_instruction numbered_tree ''agents/helper'' None Map.empty
     = Inl (UnboundLocalError ''instruction_md_path'')"
proof -
  have g: "given None = None" by (simp add: given_def)
  have ne: "''agents/helper'' \<noteq> []" by simp
  have nx: "\<not> path_exists numbered_tree (path_parts ''agents/helper'')"
    by (simp add: path_exists_def path_parts_def numbered_tree_def)
  show ?thesis by (rule markdown_missing_directory_unbound_local[OF g ne nx])
qed

text \<open>
  With \<open>version\<close> omitted, \<^verbatim>\<open>render_template_instruction\<close> merges the values of the
  numerically latest version directory (line 242 passes the omitted version on to the value
  loader), also when the template it renders comes from an older version directory.
\<close>

theorem template_values_come_from_latest_version:
  assumes "given v = None" and "p \<noteq> []"
    and "version_dirs root (path_parts p) = Inr ns"
    and "latest_version ns = Inr m"
    and "template_path root p v = Inr tp"
    and "get_template root tp = Inr t"
  shows "render_template_instruction root p v ctx
     = (case (case values_file root (path_parts p @ [m]) of
                None \<Rightarrow> Inr [] | Some f \<Rightarrow> load_values_from root f) of
          Inl e \<Rightarrow> Inl e
        | Inr vars \<Rightarrow> (case render_segments (merged_context vars ctx) t of
            Inl e \<Rightarrow> Inl e | Inr out \<Rightarrow> Inr (strip out)))"
proof -
  have ex: "path_exists root (path_parts p)" using assms(3) by (rule version_dirs_exists)
  obtain x xs where ns: "ns = x # xs" using assms(4) by (cases ns) (auto simp: latest_version_def)
  have "variables_version_dir root p v = Inr (Some (path_parts p @ [m]))"
    using assms(1,3,4) ex ns by (simp add: variables_version_dir_def)
  then have "load_instruction_variables root p v
      = (case values_file root (path_parts p @ [m]) of None \<Rightarrow> Inr [] | Some f \<Rightarrow> load_values_from root f)"
    by (simp add: load_instruction_variables_def)
  then show ?thesis using assms(2,5,6) by (simp add: render_template_instruction_def)
qed

theorem template_values_come_from_latest_version_witness:
  "render_template_instruction stale_values_tree ''assistant'' None Map.empty = Inr ''new''"
proof -
  have g: "given None = None" by (simp add: given_def)
  have ne: "''assistant'' \<noteq> []" by simp
  have gt: "get_template stale_values_tree [''assistant'', ''v2'', ''instruction.j2''] = Inr [Var ''NAME'']"
    by (simp add: get_template_def stale_values_tree_def jinja_def)
  note t = template_values_come_from_latest_version[OF g ne stale_dirs stale_latest
      stale_template_path gt, of Map.empty]
  have vf: "values_file stale_values_tree (path_parts ''assistant'' @ [''v3''])
      = Some [''assistant'', ''v3'', ''values.py'']"
    by (simp add: values_file_def path_exists_def parts_assistant stale_values_tree_def)
  have lv: "load_values_from stale_values_tree [''assistant'', ''v3'', ''values.py'']
      = Inr [(''NAME'', Value (PyStr ''new''))]"
    by (simp add: load_values_from_def exec_module_def stale_values_tree_def python_def
        public_constants_def startswith_def isupper_def char_defs)
  have st: "strip ''new'' = ''new''" by (simp add: strip_def char_defs)
  show ?thesis unfolding t vf by (simp add: lv merged_context_def st)
qed

end
